theory Spec2Isabelle
  imports Main "HOL-Library.Code_Target_Numeral" "HOL-Library.AList" "HOL-Library.Char_ord" "HOL-Library.List_Lexorder"
begin

section \<open>Go values\<close>

text \<open>
  A Go \<^verbatim>\<open>string\<close> is a sequence of bytes: \<^typ>\<open>string\<close>, whose characters are the
  256 byte values.

  A Go \<^verbatim>\<open>map[string]string\<close> is a list of (key, value) entries with distinct keys. The
  order of the list is the order in which a \<^verbatim>\<open>range\<close> loop visits the entries; the Go
  runtime leaves that order open, so every order of the list is a possible run.
  A nil map, where the source tests for it, is \<^term>\<open>None\<close>.
\<close>

type_synonym gomap = "(string \<times> string) list"

text \<open>\<^verbatim>\<open>m[k] = v\<close>: replaces the value of an entry that is there, adds one otherwise.\<close>

definition mapAssign :: "gomap \<Rightarrow> string \<Rightarrow> string \<Rightarrow> gomap" where
  "mapAssign m k v = AList.update k v m"

subsection \<open>strings.EqualFold\<close>

text \<open>
  \<^verbatim>\<open>strings.EqualFold\<close> of the Go library reports whether two strings, read as UTF-8,
  are equal under Unicode simple case folding. It compares byte by byte while both bytes
  are ASCII and goes over to runes at the first byte from 0x80 on.

  Two ASCII bytes are equal under folding when they are the same byte or an upper-case
  letter and its lower-case form.
\<close>

definition foldEqByte :: "char \<Rightarrow> char \<Rightarrow> bool" where
  "foldEqByte sr tr =
     (let a = (of_char sr :: nat); b = (of_char tr :: nat);
          lo = min a b; hi = max a b
      in a = b \<or> (65 \<le> lo \<and> lo \<le> 90 \<and> hi = lo + 32))"

text \<open>
  \<^verbatim>\<open>utf8.DecodeRuneInString\<close>, which is also how a \<^verbatim>\<open>range\<close> loop reads a string: the
  rune at the front and its width in bytes. \<open>runeLen\<close> is the width of a well-formed
  sequence of two to four bytes and 0 for every other front. A byte from 0x80 on that
  starts no well-formed sequence is read as \<^verbatim>\<open>RuneError\<close>, U+FFFD, of width 1. A rune is
  a natural number here: decoding gives no negative one.
\<close>

definition byteIn :: "char \<Rightarrow> nat \<Rightarrow> nat \<Rightarrow> bool" where
  "byteIn c lo hi = (lo \<le> (of_char c :: nat) \<and> (of_char c :: nat) \<le> hi)"

definition runeLen :: "string \<Rightarrow> nat" where
  "runeLen s =
     (case s of
        [] \<Rightarrow> 0
      | b0 # r \<Rightarrow>
          if byteIn b0 0xC2 0xDF then
            (case r of b1 # _ \<Rightarrow> if byteIn b1 0x80 0xBF then 2 else 0 | _ \<Rightarrow> 0)
          else if byteIn b0 0xE0 0xEF then
            (case r of
               b1 # b2 # _ \<Rightarrow>
                 if byteIn b1 (if b0 = CHR 0xE0 then 0xA0 else 0x80)
                              (if b0 = CHR 0xED then 0x9F else 0xBF)
                    \<and> byteIn b2 0x80 0xBF then 3 else 0
             | _ \<Rightarrow> 0)
          else if byteIn b0 0xF0 0xF4 then
            (case r of
               b1 # b2 # b3 # _ \<Rightarrow>
                 if byteIn b1 (if b0 = CHR 0xF0 then 0x90 else 0x80)
                              (if b0 = CHR 0xF4 then 0x8F else 0xBF)
                    \<and> byteIn b2 0x80 0xBF \<and> byteIn b3 0x80 0xBF then 4 else 0
             | _ \<Rightarrow> 0)
          else 0)"

definition RuneError :: nat where
  "RuneError = 0xFFFD"

definition contByte :: "string \<Rightarrow> nat \<Rightarrow> nat" where
  "contByte s i = (of_char (s ! i) :: nat) - 0x80"

definition DecodeRuneInString :: "string \<Rightarrow> nat \<times> nat" where
  "DecodeRuneInString s =
     (case s of
        [] \<Rightarrow> (RuneError, 0)
      | b0 # _ \<Rightarrow>
          if (of_char b0 :: nat) < 0x80 then (of_char b0, 1)
          else if runeLen s = 2 then
            (((of_char b0 :: nat) - 0xC0) * 64 + contByte s 1, 2)
          else if runeLen s = 3 then
            (((of_char b0 :: nat) - 0xE0) * 4096 + contByte s 1 * 64 + contByte s 2, 3)
          else if runeLen s = 4 then
            (((of_char b0 :: nat) - 0xF0) * 262144 + contByte s 1 * 4096 + contByte s 2 * 64
               + contByte s 3, 4)
          else (RuneError, 1))"

text \<open>
  \<^verbatim>\<open>unicode.SimpleFold\<close> steps through the runes that are equal under simple folding: it
  returns the next greater one, or the smallest one when none is greater. For ASCII it
  reads the table \<^verbatim>\<open>asciiFold\<close>, in which \<^verbatim>\<open>k\<close> steps to the Kelvin sign U+212A and \<^verbatim>\<open>s\<close>
  to the long s U+017F. For every other rune it reads the case tables of package
  \<^verbatim>\<open>unicode\<close>. Those tables are not part of the repository: they are the parameter \<open>uni\<close>
  of the model, the step of \<^verbatim>\<open>SimpleFold\<close> on the runes from U+0080 on. Whatever is proved
  below holds for every such step, that of the library among them.
\<close>

definition asciiFold :: "nat \<Rightarrow> nat" where
  "asciiFold r =
     (if 65 \<le> r \<and> r \<le> 90 then r + 32
      else if r = 107 then 0x212A
      else if r = 115 then 0x17F
      else if 97 \<le> r \<and> r \<le> 122 then r - 32
      else r)"

definition SimpleFold :: "(nat \<Rightarrow> nat) \<Rightarrow> nat \<Rightarrow> nat" where
  "SimpleFold uni r =
     (if 0x10FFFF < r then r else if r < 0x80 then asciiFold r else uni r)"

text \<open>
  The loop \<^verbatim>\<open>for r != sr && r < tr { r = unicode.SimpleFold(r) }\<close> of the library. With
  the library's tables it ends, since the steps from a rune lead back to it. For a step
  that never leaves the loop the walk has no result, and the two runes are not equal.
\<close>

partial_function (option) foldWalk :: "(nat \<Rightarrow> nat) \<Rightarrow> nat \<Rightarrow> nat \<Rightarrow> nat \<Rightarrow> nat option" where
  "foldWalk uni sr tr r =
     (if r \<noteq> sr \<and> r < tr then foldWalk uni sr tr (SimpleFold uni r) else Some r)"

declare foldWalk.simps [code]

text \<open>
  One round of the rune loop: the same rune; or, after the smaller one was made \<open>sr\<close>,
  two ASCII runes that are an upper-case letter and its lower-case form; or a rune \<open>tr\<close>
  from U+0080 on that the walk from \<open>sr\<close> arrives at.
\<close>

definition runeEqualFold :: "(nat \<Rightarrow> nat) \<Rightarrow> nat \<Rightarrow> nat \<Rightarrow> bool" where
  "runeEqualFold uni r1 r2 =
     (if r2 = r1 then True
      else let sr = min r1 r2; tr = max r1 r2 in
        if tr < 0x80 then 65 \<le> sr \<and> sr \<le> 90 \<and> tr = sr + 32
        else foldWalk uni sr tr (SimpleFold uni sr) = Some tr)"

lemma DecodeRuneInString_width: "s \<noteq> [] \<Longrightarrow> 0 < snd (DecodeRuneInString s)"
  by (cases s) (simp_all add: DecodeRuneInString_def)

text \<open>The rune loop, after the label \<^verbatim>\<open>hasUnicode\<close>.\<close>

function foldRunes :: "(nat \<Rightarrow> nat) \<Rightarrow> string \<Rightarrow> string \<Rightarrow> bool" where
  "foldRunes uni s t =
     (if s = [] then t = []
      else if t = [] then False
      else if runeEqualFold uni (fst (DecodeRuneInString s)) (fst (DecodeRuneInString t))
      then foldRunes uni (drop (snd (DecodeRuneInString s)) s)
                         (drop (snd (DecodeRuneInString t)) t)
      else False)"
  by pat_completeness auto
termination
  by (relation "measure (\<lambda>(uni, s, t). length s)") (auto simp: DecodeRuneInString_width)

text \<open>The byte loop, which leaves for the rune loop at the first byte that is not ASCII
  and otherwise ends with the comparison of the lengths.\<close>

fun EqualFold :: "(nat \<Rightarrow> nat) \<Rightarrow> string \<Rightarrow> string \<Rightarrow> bool" where
  "EqualFold uni (sr # s) (tr # t) =
     (if 0x80 \<le> (of_char sr :: nat) \<or> 0x80 \<le> (of_char tr :: nat)
      then foldRunes uni (sr # s) (tr # t)
      else if foldEqByte sr tr then EqualFold uni s t
      else False)"
| "EqualFold uni [] [] = True"
| "EqualFold uni _ _ = False"

text \<open>The ASCII lower-case form of a byte, to say what folding means on ASCII names.\<close>

definition lowerByte :: "char \<Rightarrow> char" where
  "lowerByte c =
     (let n = (of_char c :: nat) in if 65 \<le> n \<and> n \<le> 90 then char_of (n + 32) else c)"

section \<open>Package configs\<close>

text \<open>
  \<^verbatim>\<open>RouteCondition\<close> and \<^verbatim>\<open>Route\<close> with the fields of the source. The fields of a
  condition carry the prefix \<open>Cond\<close>, since both structs name them alike.
  \<^verbatim>\<open>ResponseStatus\<close> is a Go \<^verbatim>\<open>int\<close>.
\<close>

record RouteCondition =
  HeaderMatch :: gomap
  CondResponseBody :: string
  CondResponseHeader :: "gomap option"
  CondResponseStatus :: int

record Route =
  Path :: string
  Method :: string
  ResponseBody :: string
  ResponseHeader :: "gomap option"
  ResponseStatus :: int
  ResponseDump :: bool
  Conditions :: "RouteCondition list"

definition Route_GetMethod :: "Route \<Rightarrow> string" where
  "Route_GetMethod r = (if Method r = [] then ''GET'' else Method r)"

definition Route_GetResponseBody :: "Route \<Rightarrow> string" where
  "Route_GetResponseBody r = ResponseBody r"

definition Route_GetResponseHeaders :: "Route \<Rightarrow> gomap" where
  "Route_GetResponseHeaders r = (case ResponseHeader r of None \<Rightarrow> [] | Some m \<Rightarrow> m)"

definition Route_GetResponseStatus :: "Route \<Rightarrow> int" where
  "Route_GetResponseStatus r = (if ResponseStatus r = 0 then 200 else ResponseStatus r)"

definition Route_GetResponseDump :: "Route \<Rightarrow> bool" where
  "Route_GetResponseDump r = ResponseDump r"

definition RouteCondition_GetResponseBody :: "RouteCondition \<Rightarrow> string" where
  "RouteCondition_GetResponseBody c = CondResponseBody c"

definition RouteCondition_GetResponseHeaders :: "RouteCondition \<Rightarrow> gomap" where
  "RouteCondition_GetResponseHeaders c =
     (case CondResponseHeader c of None \<Rightarrow> [] | Some m \<Rightarrow> m)"

definition RouteCondition_GetResponseStatus :: "RouteCondition \<Rightarrow> int" where
  "RouteCondition_GetResponseStatus c =
     (if CondResponseStatus c = 0 then 200 else CondResponseStatus c)"

text \<open>
  \<^verbatim>\<open>MatchesHeaders\<close>: the inner loop looks for a request header and breaks at the first
  one that fits; the outer loop returns false at the first required header that was not
  found. The matcher, and every function below that calls it, passes on the parameter
  \<open>uni\<close> of \<^verbatim>\<open>strings.EqualFold\<close>.
\<close>

fun findHeader :: "(nat \<Rightarrow> nat) \<Rightarrow> string \<Rightarrow> string \<Rightarrow> gomap \<Rightarrow> bool" where
  "findHeader uni expectedKey expectedValue [] = False"
| "findHeader uni expectedKey expectedValue ((actualKey, actualValue) # rest) =
     (if EqualFold uni expectedKey actualKey \<and> actualValue = expectedValue then True
      else findHeader uni expectedKey expectedValue rest)"

fun matchesAll :: "(nat \<Rightarrow> nat) \<Rightarrow> gomap \<Rightarrow> gomap \<Rightarrow> bool" where
  "matchesAll uni [] requestHeaders = True"
| "matchesAll uni ((expectedKey, expectedValue) # rest) requestHeaders =
     (if \<not> findHeader uni expectedKey expectedValue requestHeaders then False
      else matchesAll uni rest requestHeaders)"

definition MatchesHeaders :: "(nat \<Rightarrow> nat) \<Rightarrow> RouteCondition \<Rightarrow> gomap \<Rightarrow> bool" where
  "MatchesHeaders uni c requestHeaders = matchesAll uni (HeaderMatch c) requestHeaders"

section \<open>Go library: strconv.Atoi and time.ParseDuration\<close>

text \<open>
  A \<^verbatim>\<open>time.Duration\<close> is a signed 64-bit count of nanoseconds and a Go \<^verbatim>\<open>int\<close> has
  64 bits on the platforms the server is built for. Both are integers here, and
  \<open>wrap64\<close> is written wherever the source's arithmetic can leave the 64-bit range.
\<close>

definition wrap64 :: "int \<Rightarrow> int" where
  "wrap64 x = (x + 2 ^ 63) mod 2 ^ 64 - 2 ^ 63"

definition Millisecond :: int where
  "Millisecond = 1000000"

definition isDigit :: "char \<Rightarrow> bool" where
  "isDigit c = (48 \<le> (of_char c :: nat) \<and> (of_char c :: nat) \<le> 57)"

definition digitVal :: "char \<Rightarrow> nat" where
  "digitVal c = (of_char c :: nat) - 48"

text \<open>
  \<^verbatim>\<open>strconv.Atoi\<close>: an optional sign, then one or more decimal digits and nothing else;
  the value must fit a 64-bit \<^verbatim>\<open>int\<close>. The caller only tests its error against nil, so
  an error is \<^term>\<open>None\<close>.
\<close>

fun atoiDigits :: "nat \<Rightarrow> string \<Rightarrow> nat option" where
  "atoiDigits n [] = Some n"
| "atoiDigits n (ch # s) = (if \<not> isDigit ch then None else atoiDigits (n * 10 + digitVal ch) s)"

definition Atoi :: "string \<Rightarrow> int option" where
  "Atoi s0 =
     (case s0 of
        [] \<Rightarrow> None
      | c # rest \<Rightarrow>
          (let s = (if c = CHR ''-'' \<or> c = CHR ''+'' then rest else s0) in
           if s = [] then None
           else case atoiDigits 0 s of
                  None \<Rightarrow> None
                | Some n \<Rightarrow>
                    (let i = (if c = CHR ''-'' then - int n else int n) in
                     if i < - (2 ^ 63) \<or> 2 ^ 63 - 1 < i then None else Some i)))"

subsection \<open>The float64 arithmetic of the fraction\<close>

text \<open>
  \<^verbatim>\<open>ParseDuration\<close> computes the nanoseconds of a fraction in \<^verbatim>\<open>float64\<close>. A positive
  float64 is a pair \<open>(m, e)\<close> that stands for \<open>m * 2 ^ e\<close>; \<open>roundRatio p q\<close> is the
  float64 nearest to \<open>p / q\<close> (53 bits, ties to even). All values that occur are
  positive. The exponent is not bounded here: a scale leaves the range of float64 only for
  a fraction with hundreds of leading zeros, whose share is below one nanosecond and is
  truncated to zero here as it is there.
\<close>

type_synonym float64 = "nat \<times> int"

fun bitLen :: "nat \<Rightarrow> nat" where
  "bitLen n = (if n = 0 then 0 else Suc (bitLen (n div 2)))"

definition scaledQuot :: "nat \<Rightarrow> nat \<Rightarrow> int \<Rightarrow> nat \<times> nat" where
  "scaledQuot p q s = (if 0 \<le> s then (p, q * 2 ^ nat s) else (p * 2 ^ nat (- s), q))"

definition roundRatio :: "nat \<Rightarrow> nat \<Rightarrow> float64" where
  "roundRatio p q =
     (let s0 = int (bitLen p) - int (bitLen q) - 53;
          (n0, d0) = scaledQuot p q s0;
          s = (if 2 ^ 53 \<le> n0 div d0 then s0 + 1 else s0);
          (n, d) = scaledQuot p q s;
          m0 = n div d;
          r = n mod d;
          m = (if 2 * r < d then m0 else if d < 2 * r then m0 + 1
               else if even m0 then m0 else m0 + 1)
      in (m, s))"

definition floatOfNat :: "nat \<Rightarrow> float64" where
  "floatOfNat n = roundRatio n 1"

definition floatMul :: "float64 \<Rightarrow> float64 \<Rightarrow> float64" where
  "floatMul a b = (case roundRatio (fst a * fst b) 1 of (m, e) \<Rightarrow> (m, e + snd a + snd b))"

definition floatDiv :: "float64 \<Rightarrow> float64 \<Rightarrow> float64" where
  "floatDiv a b = (case roundRatio (fst a) (fst b) of (m, e) \<Rightarrow> (m, e + snd a - snd b))"

definition floatTrunc :: "float64 \<Rightarrow> nat" where
  "floatTrunc a = (if 0 \<le> snd a then fst a * 2 ^ nat (snd a) else fst a div 2 ^ nat (- snd a))"

subsection \<open>time.ParseDuration\<close>

definition hexDigit :: "nat \<Rightarrow> char" where
  "hexDigit n = ''0123456789abcdef'' ! n"

text \<open>
  \<^verbatim>\<open>quote\<close> of package time. It walks the runes of the string, and writes every byte of a
  rune that is not printable ASCII as \<^verbatim>\<open>\xHH\<close>; every byte of such a rune is below 0x20 or
  from 0x80 on, so the walk is the same byte by byte.
\<close>

fun quoteBytes :: "string \<Rightarrow> string" where
  "quoteBytes [] = []"
| "quoteBytes (c # s) =
     (let n = (of_char c :: nat) in
      if 128 \<le> n \<or> n < 32 then
        [CHR 0x5C, CHR ''x'', hexDigit (n div 16), hexDigit (n mod 16)] @ quoteBytes s
      else if c = CHR 0x22 \<or> c = CHR 0x5C then CHR 0x5C # c # quoteBytes s
      else c # quoteBytes s)"

definition quote :: "string \<Rightarrow> string" where
  "quote s = CHR 0x22 # quoteBytes s @ [CHR 0x22]"

definition errInvalidDuration :: "string \<Rightarrow> string" where
  "errInvalidDuration orig = ''time: invalid duration '' @ quote orig"

definition errMissingUnit :: "string \<Rightarrow> string" where
  "errMissingUnit orig = ''time: missing unit in duration '' @ quote orig"

definition errUnknownUnit :: "string \<Rightarrow> string \<Rightarrow> string" where
  "errUnknownUnit u orig = ''time: unknown unit '' @ quote u @ '' in duration '' @ quote orig"

text \<open>\<^verbatim>\<open>leadingInt\<close>: the leading digits as a number; \<^term>\<open>None\<close> is its overflow error.\<close>

fun leadingInt :: "nat \<Rightarrow> string \<Rightarrow> (nat \<times> string) option" where
  "leadingInt x [] = Some (x, [])"
| "leadingInt x (c # s) =
     (if \<not> isDigit c then Some (x, c # s)
      else if 2 ^ 63 div 10 < x then None
      else (let x' = x * 10 + digitVal c in
            if 2 ^ 63 < x' then None else leadingInt x' s))"

text \<open>
  \<^verbatim>\<open>leadingFraction\<close>: the leading digits as a number and its scale; on overflow it stops
  accumulating, and still consumes the digits.
\<close>

fun leadingFraction :: "nat \<Rightarrow> float64 \<Rightarrow> bool \<Rightarrow> string \<Rightarrow> nat \<times> float64 \<times> string" where
  "leadingFraction x scale overflow [] = (x, scale, [])"
| "leadingFraction x scale overflow (c # s) =
     (if \<not> isDigit c then (x, scale, c # s)
      else if overflow then leadingFraction x scale True s
      else if (2 ^ 63 - 1) div 10 < x then leadingFraction x scale True s
      else (let y = x * 10 + digitVal c in
            if 2 ^ 63 < y then leadingFraction x scale True s
            else leadingFraction y (floatMul scale (floatOfNat 10)) False s))"

definition unitMap :: "string \<Rightarrow> nat option" where
  "unitMap u =
     (if u = ''ns'' then Some 1
      else if u = ''us'' then Some 1000
      else if u = [CHR 0xC2, CHR 0xB5, CHR ''s''] then Some 1000
      else if u = [CHR 0xCE, CHR 0xBC, CHR ''s''] then Some 1000
      else if u = ''ms'' then Some 1000000
      else if u = ''s'' then Some 1000000000
      else if u = ''m'' then Some 60000000000
      else if u = ''h'' then Some 3600000000000
      else None)"

definition notUnitByte :: "char \<Rightarrow> bool" where
  "notUnitByte c = (c = CHR ''.'' \<or> isDigit c)"

text \<open>
  One round of the loop of \<^verbatim>\<open>ParseDuration\<close> takes a number, an optional fraction and a
  unit off the front of the string. \<open>fractionPart\<close> is the step that consumes
  \<^verbatim>\<open>(\.[0-9]*)?\<close>: the fraction \<open>f\<close>, its scale, the rest and whether a digit was read.
\<close>

definition fractionPart :: "string \<Rightarrow> nat \<times> float64 \<times> string \<times> bool" where
  "fractionPart s =
     (case s of
        [] \<Rightarrow> (0, floatOfNat 1, s, False)
      | c # r \<Rightarrow>
          if c = CHR ''.'' then
            (case leadingFraction 0 (floatOfNat 1) False r of
               (f, scale, s') \<Rightarrow> (f, scale, s', length r \<noteq> length s'))
          else (0, floatOfNat 1, s, False))"

text \<open>
  \<open>unitPart\<close> is the step that consumes the unit and computes the nanoseconds of the term
  from the integer \<open>v\<close>, the fraction \<open>f\<close> and its scale.
\<close>

definition unitPart ::
  "string \<Rightarrow> nat \<Rightarrow> nat \<Rightarrow> float64 \<Rightarrow> string \<Rightarrow> string + (nat \<times> string)" where
  "unitPart orig v f scale s =
     (let u = takeWhile (\<lambda>c. \<not> notUnitByte c) s;
          s' = dropWhile (\<lambda>c. \<not> notUnitByte c) s
      in if u = [] then Inl (errMissingUnit orig)
         else case unitMap u of
           None \<Rightarrow> Inl (errUnknownUnit u orig)
         | Some unit \<Rightarrow>
             if 2 ^ 63 div unit < v then Inl (errInvalidDuration orig)
             else if 0 < f then
               (let v' = (v * unit + floatTrunc (floatMul (floatOfNat f)
                            (floatDiv (floatOfNat unit) scale))) mod 2 ^ 64
                in if 2 ^ 63 < v' then Inl (errInvalidDuration orig) else Inr (v', s'))
             else Inr (v * unit, s'))"

definition durationTerm :: "string \<Rightarrow> string \<Rightarrow> string + (nat \<times> string)" where
  "durationTerm orig s =
     (case s of
        [] \<Rightarrow> Inl (errInvalidDuration orig)
      | c # _ \<Rightarrow>
          if \<not> notUnitByte c then Inl (errInvalidDuration orig)
          else case leadingInt 0 s of
            None \<Rightarrow> Inl (errInvalidDuration orig)
          | Some (v, s1) \<Rightarrow>
              (case fractionPart s1 of
                 (f, scale, s2, post) \<Rightarrow>
                   if length s = length s1 \<and> \<not> post then Inl (errInvalidDuration orig)
                   else unitPart orig v f scale s2))"

text \<open>Every round of the loop consumes at least the unit.\<close>

lemma leadingInt_length: "leadingInt x s = Some (v, r) \<Longrightarrow> length r \<le> length s"
proof (induction x s rule: leadingInt.induct)
  case (1 x)
  then show ?case by simp
next
  case (2 x c s)
  then show ?case
    by (auto simp: Let_def split: if_splits)
qed

lemma leadingFraction_length:
  "leadingFraction x sc ov s = (f, sc', r) \<Longrightarrow> length r \<le> length s"
proof (induction x sc ov s rule: leadingFraction.induct)
  case (1 x scale overflow)
  then show ?case by simp
next
  case (2 x scale overflow c s)
  then show ?case
    by (auto simp: Let_def split: if_splits)
qed

lemma fractionPart_length: "fractionPart s = (f, sc, r, post) \<Longrightarrow> length r \<le> length s"
  by (auto simp: fractionPart_def split: list.splits if_splits prod.splits
           dest: leadingFraction_length)

lemma dropWhile_shorter: "takeWhile P xs \<noteq> [] \<Longrightarrow> length (dropWhile P xs) < length xs"
  by (cases xs) (auto simp: less_Suc_eq_le length_dropWhile_le split: if_splits)

lemma unitPart_length: "unitPart orig v f sc s = Inr (v', r) \<Longrightarrow> length r < length s"
  by (auto simp: unitPart_def Let_def dropWhile_shorter split: if_splits option.splits)

lemma durationTerm_length:
  assumes "durationTerm orig s = Inr (v, r)"
  shows "length r < length s"
proof -
  from assms obtain v0 s1 f sc s2 post where li: "leadingInt 0 s = Some (v0, s1)"
    and fp: "fractionPart s1 = (f, sc, s2, post)"
    and up: "unitPart orig v0 f sc s2 = Inr (v, r)"
    by (auto simp: durationTerm_def split: list.splits if_splits option.splits prod.splits)
  from unitPart_length [OF up] fractionPart_length [OF fp] leadingInt_length [OF li]
  show ?thesis by simp
qed

function durationLoop :: "string \<Rightarrow> nat \<Rightarrow> string \<Rightarrow> string + nat" where
  "durationLoop orig d s =
     (if s = [] then Inr d
      else case durationTerm orig s of
             Inl err \<Rightarrow> Inl err
           | Inr (v, rest) \<Rightarrow>
               (let d' = (d + v) mod 2 ^ 64 in
                if 2 ^ 63 < d' then Inl (errInvalidDuration orig)
                else durationLoop orig d' rest))"
  by pat_completeness auto
termination
  by (relation "measure (\<lambda>(orig, d, s). length s)") (auto dest: durationTerm_length)

definition ParseDuration :: "string \<Rightarrow> string + int" where
  "ParseDuration orig =
     (let neg = (case orig of [] \<Rightarrow> False | c # _ \<Rightarrow> c = CHR ''-'');
          s = (case orig of
                 [] \<Rightarrow> orig
               | c # rest \<Rightarrow> if c = CHR ''-'' \<or> c = CHR ''+'' then rest else orig)
      in if s = ''0'' then Inr 0
         else if s = [] then Inl (errInvalidDuration orig)
         else case durationLoop orig 0 s of
                Inl err \<Rightarrow> Inl err
              | Inr d \<Rightarrow>
                  if neg then Inr (wrap64 (- wrap64 (int d)))
                  else if 2 ^ 63 - 1 < d then Inl (errInvalidDuration orig)
                  else Inr (int d))"

section \<open>Go library: encoding/json, for a RequestDump\<close>

text \<open>
  The string encoder of \<^verbatim>\<open>encoding/json\<close> with HTML escaping, as \<^verbatim>\<open>Marshal\<close> uses it.
  Where the library decodes \<^verbatim>\<open>RuneError\<close> of width 1, that is where \<open>runeLen\<close> is 0 at
  a byte from 0x80 on, it writes the escape of U+FFFD.
\<close>

definition htmlSafe :: "char \<Rightarrow> bool" where
  "htmlSafe b =
     (32 \<le> (of_char b :: nat) \<and> (of_char b :: nat) < 128
      \<and> b \<noteq> CHR 0x22 \<and> b \<noteq> CHR 0x5C \<and> b \<noteq> CHR ''<'' \<and> b \<noteq> CHR ''>'' \<and> b \<noteq> CHR ''&'')"

definition escapeByte :: "char \<Rightarrow> string" where
  "escapeByte b =
     (if b = CHR 0x5C \<or> b = CHR 0x22 then [CHR 0x5C, b]
      else if b = CHR 0x08 then [CHR 0x5C, CHR ''b'']
      else if b = CHR 0x0C then [CHR 0x5C, CHR ''f'']
      else if b = CHR 0x0A then [CHR 0x5C, CHR ''n'']
      else if b = CHR 0x0D then [CHR 0x5C, CHR ''r'']
      else if b = CHR 0x09 then [CHR 0x5C, CHR ''t'']
      else [CHR 0x5C, CHR ''u'', CHR ''0'', CHR ''0'',
            hexDigit ((of_char b :: nat) div 16), hexDigit ((of_char b :: nat) mod 16)])"

function appendString :: "string \<Rightarrow> string" where
  "appendString src =
     (case src of
        [] \<Rightarrow> []
      | b # rest \<Rightarrow>
          if (of_char b :: nat) < 128 then
            (if htmlSafe b then [b] else escapeByte b) @ appendString rest
          else if runeLen src = 0 then
            [CHR 0x5C, CHR ''u'', CHR ''f'', CHR ''f'', CHR ''f'', CHR ''d''] @ appendString rest
          else if take 3 src = [CHR 0xE2, CHR 0x80, CHR 0xA8] then
            [CHR 0x5C, CHR ''u'', CHR ''2'', CHR ''0'', CHR ''2'', CHR ''8'']
              @ appendString (drop 3 src)
          else if take 3 src = [CHR 0xE2, CHR 0x80, CHR 0xA9] then
            [CHR 0x5C, CHR ''u'', CHR ''2'', CHR ''0'', CHR ''2'', CHR ''9'']
              @ appendString (drop 3 src)
          else take (runeLen src) src @ appendString (drop (runeLen src) src))"
  by pat_completeness auto
termination
  by (relation "measure length") auto

definition jsonString :: "string \<Rightarrow> string" where
  "jsonString s = CHR 0x22 # appendString s @ [CHR 0x22]"

fun joinWith :: "string \<Rightarrow> string list \<Rightarrow> string" where
  "joinWith sep [] = []"
| "joinWith sep [x] = x"
| "joinWith sep (x # y # ys) = x @ sep @ joinWith sep (y # ys)"

text \<open>
  \<^verbatim>\<open>RequestDump\<close> and what \<^verbatim>\<open>json.MarshalIndent(dump, "", "  ")\<close> returns for it. Both
  fields are maps that are never nil; the library writes the keys of a map in ascending
  byte order, an empty map as \<^verbatim>\<open>{}\<close>, and returns no error for a value of this type,
  so the error branch of the caller has no counterpart here.
\<close>

record RequestDump =
  Headers :: gomap
  QueryParameters :: gomap

definition marshalEntry :: "string \<times> string \<Rightarrow> string" where
  "marshalEntry kv = ''    '' @ jsonString (fst kv) @ '': '' @ jsonString (snd kv)"

definition marshalMap :: "gomap \<Rightarrow> string" where
  "marshalMap m =
     (if m = [] then ''{}''
      else ''{'' @ [CHR 0x0A]
           @ joinWith ('','' @ [CHR 0x0A]) (map marshalEntry (sort_key fst m))
           @ [CHR 0x0A] @ ''  }'')"

definition MarshalIndent :: "RequestDump \<Rightarrow> string" where
  "MarshalIndent dump =
     ''{'' @ [CHR 0x0A]
     @ ''  '' @ jsonString ''headers'' @ '': '' @ marshalMap (Headers dump) @ '','' @ [CHR 0x0A]
     @ ''  '' @ jsonString ''query_parameters'' @ '': '' @ marshalMap (QueryParameters dump)
     @ [CHR 0x0A] @ ''}''"

section \<open>The server\<close>

subsection \<open>The request context of fasthttp\<close>

text \<open>
  What the handler reads and writes of a \<^verbatim>\<open>fasthttp.RequestCtx\<close>. Of the request: the
  header pairs and the query arguments, each in the order in which \<^verbatim>\<open>VisitAll\<close> visits
  them. Of the response: the status code, the calls of \<^verbatim>\<open>Header.Set\<close> in the order in
  which they were made, the body, and the flag with which the server is configured not to
  answer with a default content type.

  The handler looks up one response header, \<^verbatim>\<open>Content-Type\<close>, and that lookup is the one
  the model has. fasthttp finds the header without regard to the case of the ASCII
  letters of its name, the last value set is the one in force, and a carriage return or
  line feed in a value is kept as a space. \<^verbatim>\<open>SetContentType\<close> sets that header. When no
  content type is set and the flag is off, the lookup answers with the library's default
  content type; the repository's test of \<^verbatim>\<open>handleRoute\<close> reads that default back.
  What fasthttp makes of the other names that are set is not part of the model, which
  keeps the calls as they were made. \<^verbatim>\<open>WriteString\<close> appends to the body. How fasthttp
  writes the response to the connection is not part of the model.
\<close>

record RequestCtx =
  reqHeader :: "(string \<times> string) list"
  reqQueryArgs :: "(string \<times> string) list"
  respStatusCode :: int
  respHeader :: "(string \<times> string) list"
  respNoDefaultContentType :: bool
  respBody :: string

definition defaultContentType :: string where
  "defaultContentType = ''text/plain; charset=utf-8''"

definition QueryArgs_Peek :: "RequestCtx \<Rightarrow> string \<Rightarrow> string" where
  "QueryArgs_Peek ctx key = (case map_of (reqQueryArgs ctx) key of None \<Rightarrow> [] | Some v \<Rightarrow> v)"

definition SetStatusCode :: "int \<Rightarrow> RequestCtx \<Rightarrow> RequestCtx" where
  "SetStatusCode code ctx = ctx\<lparr>respStatusCode := code\<rparr>"

definition Header_Set :: "string \<Rightarrow> string \<Rightarrow> RequestCtx \<Rightarrow> RequestCtx" where
  "Header_Set key v ctx = ctx\<lparr>respHeader := respHeader ctx @ [(key, v)]\<rparr>"

definition SetContentType :: "string \<Rightarrow> RequestCtx \<Rightarrow> RequestCtx" where
  "SetContentType v ctx = Header_Set ''Content-Type'' v ctx"

fun sameHeaderName :: "string \<Rightarrow> string \<Rightarrow> bool" where
  "sameHeaderName [] [] = True"
| "sameHeaderName (a # s) (b # t) = (if foldEqByte a b then sameHeaderName s t else False)"
| "sameHeaderName _ _ = False"

definition lastSet :: "string \<Rightarrow> (string \<times> string) list \<Rightarrow> string" where
  "lastSet key sets =
     (case filter (\<lambda>kv. sameHeaderName (fst kv) key) sets of [] \<Rightarrow> [] | x # xs \<Rightarrow> snd (last (x # xs)))"

definition removeNewLines :: "string \<Rightarrow> string" where
  "removeNewLines v = map (\<lambda>c. if c = CHR 0x0D \<or> c = CHR 0x0A then CHR '' '' else c) v"

text \<open>\<^verbatim>\<open>ctx.Response.Header.Peek("Content-Type")\<close>.\<close>

definition Header_PeekContentType :: "RequestCtx \<Rightarrow> string" where
  "Header_PeekContentType ctx =
     (let v = removeNewLines (lastSet ''Content-Type'' (respHeader ctx)) in
      if v = [] \<and> \<not> respNoDefaultContentType ctx then defaultContentType else v)"

definition WriteString :: "string \<Rightarrow> RequestCtx \<Rightarrow> RequestCtx" where
  "WriteString s ctx = ctx\<lparr>respBody := respBody ctx @ s\<rparr>"

subsection \<open>Package main\<close>

definition extractHeaders :: "RequestCtx \<Rightarrow> gomap" where
  "extractHeaders ctx = foldl (\<lambda>headers kv. mapAssign headers (fst kv) (snd kv)) [] (reqHeader ctx)"

definition extractQueryParameters :: "RequestCtx \<Rightarrow> gomap" where
  "extractQueryParameters ctx =
     foldl (\<lambda>queryParams kv. mapAssign queryParams (fst kv) (snd kv)) [] (reqQueryArgs ctx)"

definition parseDelayParam :: "RequestCtx \<Rightarrow> string + int" where
  "parseDelayParam ctx =
     (let delayStr = QueryArgs_Peek ctx ''delay'' in
      if delayStr = [] then Inr 0
      else case ParseDuration delayStr of
             Inl err \<Rightarrow>
               (case Atoi delayStr of
                  Some ms \<Rightarrow> Inr (wrap64 (ms * Millisecond))
                | None \<Rightarrow> Inl err)
           | Inr delay \<Rightarrow> Inr delay)"

text \<open>
  \<^verbatim>\<open>sleepWithCancellation\<close> waits in a \<^verbatim>\<open>select\<close> for the timer or for the closing of the
  shutdown channel. Which of the two the \<^verbatim>\<open>select\<close> takes is decided outside the handler,
  so it is an input; time itself is not modelled.
\<close>

datatype selected = TimerFired | ShutdownClosed

definition sleepWithCancellation :: "selected \<Rightarrow> int \<Rightarrow> bool" where
  "sleepWithCancellation sel delay =
     (if delay \<le> 0 then True
      else case sel of TimerFired \<Rightarrow> True | ShutdownClosed \<Rightarrow> False)"

text \<open>
  The loop over the conditions of \<^verbatim>\<open>handleRoute\<close>: the first condition that matches
  gives body, headers and status, and the loop breaks.
\<close>

fun checkConditions :: "(nat \<Rightarrow> nat) \<Rightarrow> RouteCondition list \<Rightarrow> gomap \<Rightarrow> (string \<times> gomap \<times> int) option" where
  "checkConditions uni [] requestHeaders = None"
| "checkConditions uni (condition # rest) requestHeaders =
     (if MatchesHeaders uni condition requestHeaders
      then Some (RouteCondition_GetResponseBody condition,
                 RouteCondition_GetResponseHeaders condition,
                 RouteCondition_GetResponseStatus condition)
      else checkConditions uni rest requestHeaders)"

definition selectResponse :: "(nat \<Rightarrow> nat) \<Rightarrow> Route \<Rightarrow> gomap \<Rightarrow> string \<times> gomap \<times> int" where
  "selectResponse uni route requestHeaders =
     (case checkConditions uni (Conditions route) requestHeaders of
        Some matched \<Rightarrow> matched
      | None \<Rightarrow> (Route_GetResponseBody route, Route_GetResponseHeaders route,
                 Route_GetResponseStatus route))"

text \<open>
  The part of \<^verbatim>\<open>handleRoute\<close> after the delay: it selects the response, sets status and
  headers, defaults the content type, replaces the body by the dump where the route asks
  for it, and writes the body. The calls of \<^verbatim>\<open>slog\<close> change nothing of the response and
  are left out.
\<close>

definition composeResponse :: "(nat \<Rightarrow> nat) \<Rightarrow> RequestCtx \<Rightarrow> Route \<Rightarrow> RequestCtx" where
  "composeResponse uni ctx route =
     (case selectResponse uni route (extractHeaders ctx) of
        (responseBody, responseHeaders, responseStatus) \<Rightarrow>
          (let ctx1 = SetStatusCode responseStatus ctx;
               ctx2 = foldl (\<lambda>c kv. Header_Set (fst kv) (snd kv) c) ctx1 responseHeaders;
               ctx3 = (if length (Header_PeekContentType ctx2) = 0
                       then SetContentType ''text/plain'' ctx2 else ctx2)
           in if Route_GetResponseDump route then
                WriteString
                  (MarshalIndent \<lparr>Headers = extractHeaders ctx,
                                  QueryParameters = extractQueryParameters ctx\<rparr>)
                  (Header_Set ''Content-Type'' ''application/json'' ctx3)
              else WriteString responseBody ctx3))"

definition handleRoute :: "(nat \<Rightarrow> nat) \<Rightarrow> selected \<Rightarrow> RequestCtx \<Rightarrow> Route \<Rightarrow> RequestCtx" where
  "handleRoute uni sel ctx route =
     (case parseDelayParam ctx of
        Inl err \<Rightarrow>
          WriteString (''Invalid delay parameter: '' @ err)
            (SetContentType ''text/plain'' (SetStatusCode 400 ctx))
      | Inr delay \<Rightarrow>
          if 0 < delay \<and> \<not> sleepWithCancellation sel delay then ctx
          else composeResponse uni ctx route)"

section \<open>Routes and requests of the repository's tests\<close>

text \<open>
  A request context as the server hands it to the handler: the response is untouched.
\<close>

definition newRequestCtx :: "(string \<times> string) list \<Rightarrow> (string \<times> string) list \<Rightarrow> RequestCtx" where
  "newRequestCtx headers args =
     \<lparr>reqHeader = headers, reqQueryArgs = args, respStatusCode = 0, respHeader = [],
      respNoDefaultContentType = False, respBody = []\<rparr>"

definition helloRoute :: Route where
  "helloRoute =
     \<lparr>Path = ''/hello'', Method = ''GET'', ResponseBody = ''Hello, World!'',
      ResponseHeader = None, ResponseStatus = 0, ResponseDump = False, Conditions = []\<rparr>"

definition testRoute :: Route where
  "testRoute =
     \<lparr>Path = ''/test'', Method = ''GET'', ResponseBody = ''Test Response'',
      ResponseHeader = Some [(''X-Custom'', ''custom-value'')], ResponseStatus = 0,
      ResponseDump = False, Conditions = []\<rparr>"

definition dumpRoute :: Route where
  "dumpRoute =
     \<lparr>Path = ''/test'', Method = ''GET'', ResponseBody = ''Original Response'',
      ResponseHeader = None, ResponseStatus = 0, ResponseDump = True, Conditions = []\<rparr>"

definition secureRoute :: Route where
  "secureRoute =
     \<lparr>Path = ''/api/secure'', Method = ''GET'', ResponseBody = ''Unauthorized'',
      ResponseHeader = Some [(''Content-Type'', ''application/json'')],
      ResponseStatus = 401, ResponseDump = False,
      Conditions =
        [\<lparr>HeaderMatch = [(''Authorization'', ''Bearer valid-token'')],
          CondResponseBody = ''{\"data\": \"secret information\"}'',
          CondResponseHeader =
            Some [(''Content-Type'', ''application/json''), (''X-Secure'', ''true'')],
          CondResponseStatus = 200\<rparr>,
         \<lparr>HeaderMatch = [(''X-API-Key'', ''admin-key'')],
          CondResponseBody = ''{\"data\": \"admin information\"}'',
          CondResponseHeader =
            Some [(''Content-Type'', ''application/json''), (''X-Admin'', ''true'')],
          CondResponseStatus = 200\<rparr>]\<rparr>"

text \<open>
  Some steps of \<^verbatim>\<open>unicode.SimpleFold\<close> beyond ASCII, to run the model on: U+00C9 and
  U+00E9, the letter e with acute; U+00B5, U+039C and U+03BC, the micro sign and the
  letter mu; the long s U+017F, which steps to \<^verbatim>\<open>S\<close>; the Kelvin sign U+212A, which steps
  to \<^verbatim>\<open>K\<close>. Every other rune steps to itself.
\<close>

definition foldExcerpt :: "nat \<Rightarrow> nat" where
  "foldExcerpt r =
     (if r = 0xC9 then 0xE9 else if r = 0xE9 then 0xC9
      else if r = 0xB5 then 0x39C else if r = 0x39C then 0x3BC else if r = 0x3BC then 0xB5
      else if r = 0x17F then 0x53
      else if r = 0x212A then 0x4B
      else r)"

text \<open>A condition without required headers, and a route whose only condition overrides
  body and headers with nothing.\<close>

definition catchAll :: RouteCondition where
  "catchAll = \<lparr>HeaderMatch = [], CondResponseBody = ''any'', CondResponseHeader = None,
                CondResponseStatus = 0\<rparr>"

definition emptyOverrideRoute :: Route where
  "emptyOverrideRoute =
     \<lparr>Path = ''/hello'', Method = ''GET'', ResponseBody = ''Hello, World!'',
      ResponseHeader = Some [(''X-Custom'', ''custom-value'')], ResponseStatus = 404,
      ResponseDump = False,
      Conditions = [\<lparr>HeaderMatch = [], CondResponseBody = [], CondResponseHeader = None,
                     CondResponseStatus = 0\<rparr>]\<rparr>"

section \<open>Lemmas\<close>

subsection \<open>Folding of header names\<close>

lemma of_char_lowerByte:
  "(of_char (lowerByte c) :: nat) =
     (if 65 \<le> (of_char c :: nat) \<and> (of_char c :: nat) \<le> 90 then of_char c + 32 else of_char c)"
  by (simp add: lowerByte_def Let_def of_char_of)

lemma foldEq_arith:
  fixes x y :: nat
  shows "((if 65 \<le> x \<and> x \<le> 90 then x + 32 else x) = (if 65 \<le> y \<and> y \<le> 90 then y + 32 else y)) =
     (x = y \<or> (65 \<le> min x y \<and> min x y \<le> 90 \<and> max x y = min x y + 32))"
  by (auto simp: min_def max_def)

lemma foldEqByte_lower: "foldEqByte a b \<longleftrightarrow> lowerByte a = lowerByte b"
proof -
  have "lowerByte a = lowerByte b \<longleftrightarrow>
        (of_char (lowerByte a) :: nat) = of_char (lowerByte b)"
    by simp
  also have "\<dots> \<longleftrightarrow> foldEqByte a b"
    unfolding of_char_lowerByte foldEqByte_def Let_def foldEq_arith ..
  finally show ?thesis by simp
qed

lemma sameHeaderName_lower: "sameHeaderName s t \<longleftrightarrow> map lowerByte s = map lowerByte t"
  by (induction s t rule: sameHeaderName.induct) (auto simp: foldEqByte_lower)

text \<open>On ASCII strings the byte loop of \<^verbatim>\<open>EqualFold\<close> never leaves for the rune loop.\<close>

lemma EqualFold_ascii:
  assumes "\<forall>c \<in> set s. (of_char c :: nat) < 0x80" and "\<forall>c \<in> set t. (of_char c :: nat) < 0x80"
  shows "EqualFold uni s t \<longleftrightarrow> map lowerByte s = map lowerByte t"
  using assms
  by (induction uni s t rule: EqualFold.induct) (auto simp: foldEqByte_lower)

lemma sameHeaderName_refl: "sameHeaderName s s"
  by (simp add: sameHeaderName_lower)

subsection \<open>The loops of the matcher\<close>

lemma findHeader_iff:
  "findHeader uni k v rh \<longleftrightarrow> (\<exists>(k', v') \<in> set rh. EqualFold uni k k' \<and> v' = v)"
  by (induction rh) auto

lemma matchesAll_iff:
  "matchesAll uni hm rh \<longleftrightarrow> (\<forall>(k, v) \<in> set hm. \<exists>(k', v') \<in> set rh. EqualFold uni k k' \<and> v' = v)"
proof (induction hm)
  case Nil
  show ?case by simp
next
  case (Cons e hm)
  obtain k v where e: "e = (k, v)" by (cases e)
  show ?case
    unfolding e using Cons.IH by (simp add: findHeader_iff)
qed

lemma checkConditions_first:
  assumes "i < length cs" "MatchesHeaders uni (cs ! i) rh" "\<forall>j<i. \<not> MatchesHeaders uni (cs ! j) rh"
  shows "checkConditions uni cs rh = Some (RouteCondition_GetResponseBody (cs ! i),
           RouteCondition_GetResponseHeaders (cs ! i), RouteCondition_GetResponseStatus (cs ! i))"
  using assms
proof (induction cs arbitrary: i)
  case Nil
  then show ?case by simp
next
  case (Cons c cs)
  show ?case
  proof (cases i)
    case 0
    with Cons.prems show ?thesis by simp
  next
    case (Suc k)
    with Cons.prems have "\<not> MatchesHeaders uni c rh" by auto
    moreover have "checkConditions uni cs rh = Some (RouteCondition_GetResponseBody (cs ! k),
           RouteCondition_GetResponseHeaders (cs ! k), RouteCondition_GetResponseStatus (cs ! k))"
      using Cons.prems Suc by (intro Cons.IH) auto
    ultimately show ?thesis using Suc by simp
  qed
qed

lemma checkConditions_none:
  "checkConditions uni cs rh = None \<longleftrightarrow> (\<forall>c \<in> set cs. \<not> MatchesHeaders uni c rh)"
  by (induction cs) auto

lemmas config_simps = MatchesHeaders_def foldEqByte_def Route_GetResponseBody_def
  Route_GetResponseHeaders_def Route_GetResponseStatus_def RouteCondition_GetResponseBody_def
  RouteCondition_GetResponseHeaders_def RouteCondition_GetResponseStatus_def

subsection \<open>The response header\<close>

lemma foldl_Header_Set:
  "foldl (\<lambda>c kv. Header_Set (fst kv) (snd kv) c) ctx hs = ctx\<lparr>respHeader := respHeader ctx @ hs\<rparr>"
  by (induction hs arbitrary: ctx) (simp_all add: Header_Set_def)

lemma lastSet_alt:
  "lastSet key sets =
     (if filter (\<lambda>kv. sameHeaderName (fst kv) key) sets = [] then []
      else snd (last (filter (\<lambda>kv. sameHeaderName (fst kv) key) sets)))"
  by (simp add: lastSet_def split: list.splits)

lemma lastSet_append_single:
  "lastSet key (sets @ [(k, v)]) = (if sameHeaderName k key then v else lastSet key sets)"
  by (simp add: lastSet_alt)

lemma lastSet_none:
  "(\<forall>kv \<in> set sets. \<not> sameHeaderName (fst kv) key) \<Longrightarrow> lastSet key sets = []"
  by (simp add: lastSet_alt)

lemma removeNewLines_Nil [simp]: "removeNewLines v = [] \<longleftrightarrow> v = []"
  by (simp add: removeNewLines_def)

lemma Header_PeekContentType_eq:
  "Header_PeekContentType ctx =
     (if lastSet ''Content-Type'' (respHeader ctx) = [] \<and> \<not> respNoDefaultContentType ctx
      then defaultContentType else removeNewLines (lastSet ''Content-Type'' (respHeader ctx)))"
  by (simp add: Header_PeekContentType_def Let_def)

lemma removeNewLines_plain [simp]:
  "removeNewLines ''text/plain'' = ''text/plain''"
  "removeNewLines ''application/json'' = ''application/json''"
  by (simp_all add: removeNewLines_def)

lemma defaultContentType_nonempty: "defaultContentType \<noteq> []"
  by (simp add: defaultContentType_def)

subsection \<open>The order of a map\<close>

text \<open>
  The order in which the entries of the extracted maps are visited does not show in the
  dump, whose keys are sorted, and an extracted map holds, for every name, the value that
  the request gives last.
\<close>

lemma same_keys_same_list:
  assumes "map fst xs = map fst ys" and "set xs = set ys" and "distinct (map fst ys)"
  shows "xs = ys"
proof (rule nth_equalityI)
  from assms(1) show len: "length xs = length ys"
    by (metis length_map)
  fix i assume i: "i < length xs"
  then have "xs ! i \<in> set ys"
    using assms(2) by (metis nth_mem)
  then obtain j where j: "j < length ys" "ys ! j = xs ! i"
    by (metis in_set_conv_nth)
  have "map fst ys ! j = map fst ys ! i"
    using i j len assms(1) by (metis nth_map)
  moreover have "j < length (map fst ys)" "i < length (map fst ys)"
    using i j len by simp_all
  ultimately have "j = i"
    using assms(3) nth_eq_iff_index_eq by blast
  with j show "xs ! i = ys ! i" by simp
qed

lemma sort_key_fst_unique:
  fixes m m' :: "('k::linorder \<times> 'v) list"
  assumes "distinct (map fst m)" and "distinct (map fst m')" and "set m = set m'"
  shows "sort_key fst m = sort_key fst m'"
proof -
  let ?xs = "sort_key fst m" and ?ys = "sort_key fst m'"
  have d: "distinct (map fst ?xs)" "distinct (map fst ?ys)"
    using assms(1,2) by (simp_all add: distinct_map)
  have s: "sorted (map fst ?xs)" "sorted (map fst ?ys)"
    by simp_all
  have "set (map fst ?xs) = set (map fst ?ys)"
    using assms(3) by simp
  with d s have "map fst ?xs = map fst ?ys"
    by (intro sorted_distinct_set_unique)
  moreover have "set ?xs = set ?ys"
    using assms(3) by simp
  ultimately show ?thesis
    using d(2) by (rule same_keys_same_list)
qed

lemma marshalMap_order:
  assumes "distinct (map fst m)" and "distinct (map fst m')" and "set m = set m'"
  shows "marshalMap m = marshalMap m'"
proof -
  have "m = [] \<longleftrightarrow> m' = []"
    using assms(3) by (metis set_empty)
  then show ?thesis
    using sort_key_fst_unique [OF assms] by (simp add: marshalMap_def)
qed

lemma distinct_mapAssign: "distinct (map fst m) \<Longrightarrow> distinct (map fst (mapAssign m k v))"
  by (simp add: mapAssign_def distinct_update)

lemma map_of_mapAssign: "map_of (mapAssign m k v) = (map_of m)(k \<mapsto> v)"
  by (simp add: mapAssign_def update_conv')

lemma foldl_mapAssign:
  "distinct (map fst m) \<Longrightarrow>
   distinct (map fst (foldl (\<lambda>h kv. mapAssign h (fst kv) (snd kv)) m kvs))
   \<and> map_of (foldl (\<lambda>h kv. mapAssign h (fst kv) (snd kv)) m kvs) = map_of m ++ map_of (rev kvs)"
proof (induction kvs arbitrary: m)
  case Nil
  then show ?case by simp
next
  case (Cons kv kvs)
  have "distinct (map fst (mapAssign m (fst kv) (snd kv)))"
    using Cons.prems by (rule distinct_mapAssign)
  from Cons.IH [OF this]
  have d: "distinct (map fst (foldl (\<lambda>h kv. mapAssign h (fst kv) (snd kv)) m (kv # kvs)))"
    and e: "map_of (foldl (\<lambda>h kv. mapAssign h (fst kv) (snd kv)) m (kv # kvs)) =
            (map_of m)(fst kv \<mapsto> snd kv) ++ map_of (rev kvs)"
    by (simp_all only: foldl_Cons map_of_mapAssign)
  have "map_of m ++ map_of (rev (kv # kvs)) = map_of m ++ ([fst kv \<mapsto> snd kv] ++ map_of (rev kvs))"
    by (cases kv) simp
  also have "\<dots> = (map_of m)(fst kv \<mapsto> snd kv) ++ map_of (rev kvs)"
  proof -
    have "map_of m ++ [fst kv \<mapsto> snd kv] = (map_of m)(fst kv \<mapsto> snd kv)"
      by simp
    then show ?thesis
      by (metis map_add_assoc)
  qed
  finally show ?case
    using d e by simp
qed

lemma extractHeaders_last_wins:
  "distinct (map fst (extractHeaders ctx))
   \<and> map_of (extractHeaders ctx) = map_of (rev (reqHeader ctx))"
  using foldl_mapAssign [of "[]" "reqHeader ctx"] by (simp add: extractHeaders_def)

lemma extractQueryParameters_last_wins:
  "distinct (map fst (extractQueryParameters ctx))
   \<and> map_of (extractQueryParameters ctx) = map_of (rev (reqQueryArgs ctx))"
  using foldl_mapAssign [of "[]" "reqQueryArgs ctx"] by (simp add: extractQueryParameters_def)

lemma MarshalIndent_order:
  assumes "distinct (map fst (Headers d))" and "distinct (map fst (Headers d'))"
    and "set (Headers d) = set (Headers d')"
    and "distinct (map fst (QueryParameters d))" and "distinct (map fst (QueryParameters d'))"
    and "set (QueryParameters d) = set (QueryParameters d')"
  shows "MarshalIndent d = MarshalIndent d'"
  using marshalMap_order [OF assms(1,2,3)] marshalMap_order [OF assms(4,5,6)]
  by (simp add: MarshalIndent_def)

subsection \<open>The handler\<close>

text \<open>The response after \<open>composeResponse\<close>, field by field.\<close>

lemma composeResponse_eq:
  "composeResponse uni ctx route =
     (case selectResponse uni route (extractHeaders ctx) of
        (responseBody, responseHeaders, responseStatus) \<Rightarrow>
          ctx\<lparr>respStatusCode := responseStatus,
              respHeader := respHeader ctx @ responseHeaders
                 @ (if lastSet ''Content-Type'' (respHeader ctx @ responseHeaders) = []
                       \<and> respNoDefaultContentType ctx
                    then [(''Content-Type'', ''text/plain'')] else [])
                 @ (if Route_GetResponseDump route then [(''Content-Type'', ''application/json'')] else []),
              respBody := respBody ctx @
                 (if Route_GetResponseDump route
                  then MarshalIndent \<lparr>Headers = extractHeaders ctx,
                                       QueryParameters = extractQueryParameters ctx\<rparr>
                  else responseBody)\<rparr>)"
  unfolding composeResponse_def Let_def foldl_Header_Set
  by (simp add: SetStatusCode_def SetContentType_def
        Header_Set_def WriteString_def Header_PeekContentType_eq
        defaultContentType_nonempty split: prod.splits)

lemma handleRoute_composed:
  assumes "parseDelayParam ctx = Inr delay" and "delay \<le> 0 \<or> sel = TimerFired"
  shows "handleRoute uni sel ctx route = composeResponse uni ctx route"
  using assms by (auto simp: handleRoute_def sleepWithCancellation_def)

lemma parseDelayParam_Inl:
  assumes "QueryArgs_Peek ctx ''delay'' \<noteq> []"
    and "ParseDuration (QueryArgs_Peek ctx ''delay'') = Inl err"
    and "Atoi (QueryArgs_Peek ctx ''delay'') = None"
  shows "parseDelayParam ctx = Inl err"
  using assms by (simp add: parseDelayParam_def Let_def)

lemma wrap64_id: "- (2 ^ 63) \<le> x \<Longrightarrow> x < 2 ^ 63 \<Longrightarrow> wrap64 x = x"
  by (simp add: wrap64_def)

lemma jsonString_headers: "jsonString ''headers'' = ''\"headers\"''"
  by (simp add: jsonString_def htmlSafe_def)

lemma jsonString_query_parameters: "jsonString ''query_parameters'' = ''\"query_parameters\"''"
  by (simp add: jsonString_def htmlSafe_def)

section \<open>The repository's tests on the model\<close>

text \<open>The table of \<^verbatim>\<open>TestRouteCondition_MatchesHeaders\<close>.\<close>

lemma MatchesHeaders_test_table:
  "MatchesHeaders foldExcerpt (catchAll\<lparr>HeaderMatch := [(''Authorization'', ''Bearer token123'')]\<rparr>)
     [(''Authorization'', ''Bearer token123''), (''Content-Type'', ''application/json'')]
   \<and> \<not> MatchesHeaders foldExcerpt (catchAll\<lparr>HeaderMatch := [(''Authorization'', ''Bearer token123'')]\<rparr>)
     [(''Authorization'', ''Bearer different-token''), (''Content-Type'', ''application/json'')]
   \<and> \<not> MatchesHeaders foldExcerpt (catchAll\<lparr>HeaderMatch := [(''X-API-Key'', ''secret'')]\<rparr>)
     [(''Authorization'', ''Bearer token123'')]
   \<and> MatchesHeaders foldExcerpt
       (catchAll\<lparr>HeaderMatch := [(''Authorization'', ''Bearer token123''), (''X-API-Key'', ''secret'')]\<rparr>)
       [(''Authorization'', ''Bearer token123''), (''X-API-Key'', ''secret''),
        (''Content-Type'', ''application/json'')]
   \<and> \<not> MatchesHeaders foldExcerpt
       (catchAll\<lparr>HeaderMatch := [(''Authorization'', ''Bearer token123''), (''X-API-Key'', ''secret'')]\<rparr>)
       [(''Authorization'', ''Bearer token123''), (''X-API-Key'', ''different-secret'')]
   \<and> MatchesHeaders foldExcerpt catchAll [(''Authorization'', ''Bearer token123'')]
   \<and> MatchesHeaders foldExcerpt (catchAll\<lparr>HeaderMatch := [(''X-API-Key'', ''secret'')]\<rparr>)
       [(''x-api-key'', ''secret'')]
   \<and> \<not> MatchesHeaders foldExcerpt (catchAll\<lparr>HeaderMatch := [(''X-API-Key'', ''Secret'')]\<rparr>)
       [(''x-api-key'', ''secret'')]"
  by code_simp

text \<open>
  \<^verbatim>\<open>strings.EqualFold\<close> beyond ASCII. Whatever the tables are: \<^verbatim>\<open>k\<close> and \<^verbatim>\<open>K\<close> equal the
  Kelvin sign U+212A, \<^verbatim>\<open>s\<close> and \<^verbatim>\<open>S\<close> equal the long s U+017F, two bytes that are not
  UTF-8 are both read as U+FFFD and are equal, and a letter does not equal another one.
  With the steps of the excerpt: the two letters e with acute are equal, the micro sign
  equals both letters mu, and strings of different numbers of runes are not equal.
\<close>

lemma EqualFold_beyond_ascii:
  "EqualFold uni ''k'' [CHR 0xE2, CHR 0x84, CHR 0xAA]
   \<and> EqualFold uni [CHR 0xE2, CHR 0x84, CHR 0xAA] ''K''
   \<and> EqualFold uni ''s'' [CHR 0xC5, CHR 0xBF]
   \<and> EqualFold uni [CHR 0xC5, CHR 0xBF] ''S''
   \<and> EqualFold uni [CHR 0xFF] [CHR 0xFE]
   \<and> EqualFold uni [CHR 0xC0, CHR 0x80] [CHR 0xEF, CHR 0xBF, CHR 0xBD, CHR 0xEF, CHR 0xBF, CHR 0xBD]
   \<and> \<not> EqualFold uni ''k'' ''s''
   \<and> \<not> EqualFold uni ''k'' [CHR 0xC5, CHR 0xBF]
   \<and> EqualFold foldExcerpt [CHR 0xC3, CHR 0x89] [CHR 0xC3, CHR 0xA9]
   \<and> EqualFold foldExcerpt [CHR 0xC2, CHR 0xB5] [CHR 0xCE, CHR 0xBC]
   \<and> EqualFold foldExcerpt [CHR 0xCE, CHR 0x9C] [CHR 0xC2, CHR 0xB5]
   \<and> \<not> EqualFold foldExcerpt [CHR 0xC3, CHR 0x89] [CHR 0xC3, CHR 0xA9, CHR ''s'']
   \<and> \<not> EqualFold foldExcerpt [CHR 0xC3, CHR 0x89, CHR ''s''] [CHR 0xC3, CHR 0xA9]"
  by code_simp

text \<open>The table of \<^verbatim>\<open>TestServer_parseDelayParam\<close>.\<close>

lemma parseDelayParam_test_table:
  "parseDelayParam (newRequestCtx [] [(''delay'', [])]) = Inr 0
   \<and> parseDelayParam (newRequestCtx [] [(''delay'', ''10ms'')]) = Inr (10 * 1000000)
   \<and> parseDelayParam (newRequestCtx [] [(''delay'', ''2s'')]) = Inr (2 * 1000000000)
   \<and> parseDelayParam (newRequestCtx [] [(''delay'', ''500us'')]) = Inr (500 * 1000)
   \<and> parseDelayParam (newRequestCtx [] [(''delay'', ''100ns'')]) = Inr 100
   \<and> parseDelayParam (newRequestCtx [] [(''delay'', ''250'')]) = Inr (250 * 1000000)
   \<and> parseDelayParam (newRequestCtx [] [(''delay'', ''invalid'')]) =
       Inl ''time: invalid duration \"invalid\"''
   \<and> parseDelayParam (newRequestCtx [] [(''delay'', ''-100ms'')]) = Inr (- 100 * 1000000)"
  by code_simp

text \<open>\<^verbatim>\<open>TestServer_handleRoute\<close>: body, the custom header, which is the one header that
  was set, and the default content type.\<close>

lemma handleRoute_test:
  "respBody (handleRoute foldExcerpt TimerFired (newRequestCtx [] []) testRoute) = ''Test Response''
   \<and> respHeader (handleRoute foldExcerpt TimerFired (newRequestCtx [] []) testRoute) =
       [(''X-Custom'', ''custom-value'')]
   \<and> Header_PeekContentType (handleRoute foldExcerpt TimerFired (newRequestCtx [] []) testRoute) =
       ''text/plain; charset=utf-8''"
  by code_simp

text \<open>The four requests of \<^verbatim>\<open>TestServer_RequestHandler_WithConditions\<close>, with the header
  names as fasthttp delivers them.\<close>

lemma handleRoute_conditions_test_table:
  "respStatusCode (handleRoute foldExcerpt TimerFired (newRequestCtx [] []) secureRoute) = 401
   \<and> respBody (handleRoute foldExcerpt TimerFired (newRequestCtx [] []) secureRoute) = ''Unauthorized''
   \<and> Header_PeekContentType (handleRoute foldExcerpt TimerFired (newRequestCtx [] []) secureRoute) =
       ''application/json''
   \<and> respStatusCode (handleRoute foldExcerpt TimerFired
        (newRequestCtx [(''Authorization'', ''Bearer valid-token'')] []) secureRoute) = 200
   \<and> respBody (handleRoute foldExcerpt TimerFired
        (newRequestCtx [(''Authorization'', ''Bearer valid-token'')] []) secureRoute) =
       ''{\"data\": \"secret information\"}''
   \<and> respHeader (handleRoute foldExcerpt TimerFired
        (newRequestCtx [(''Authorization'', ''Bearer valid-token'')] []) secureRoute) =
       [(''Content-Type'', ''application/json''), (''X-Secure'', ''true'')]
   \<and> respStatusCode (handleRoute foldExcerpt TimerFired
        (newRequestCtx [(''X-Api-Key'', ''admin-key'')] []) secureRoute) = 200
   \<and> respBody (handleRoute foldExcerpt TimerFired
        (newRequestCtx [(''X-Api-Key'', ''admin-key'')] []) secureRoute) =
       ''{\"data\": \"admin information\"}''
   \<and> respHeader (handleRoute foldExcerpt TimerFired
        (newRequestCtx [(''X-Api-Key'', ''admin-key'')] []) secureRoute) =
       [(''Content-Type'', ''application/json''), (''X-Admin'', ''true'')]
   \<and> respStatusCode (handleRoute foldExcerpt TimerFired
        (newRequestCtx [(''Authorization'', ''Bearer wrong-token'')] []) secureRoute) = 401
   \<and> respBody (handleRoute foldExcerpt TimerFired
        (newRequestCtx [(''Authorization'', ''Bearer wrong-token'')] []) secureRoute) = ''Unauthorized''"
  by code_simp

section \<open>The condition matcher\<close>

text \<open>
  C1. Condition matching goes through the conditions of a route in their declared order
  and takes the first one that matches. A condition matches when every pair of its
  required headers has a request header whose name is equal under \<^verbatim>\<open>strings.EqualFold\<close>
  and whose value is the same byte for byte. Equal under \<^verbatim>\<open>strings.EqualFold\<close> is equal
  without regard to case: for names of ASCII bytes, as the names of HTTP headers are, it
  is to have the same lower-case form, and beyond ASCII it is the simple case folding of
  Unicode. A condition without required headers matches every request. When no condition
  matches, body, headers and status are the route's own.
\<close>

theorem condition_matching_first_match:
  "(MatchesHeaders uni c rh \<longleftrightarrow>
      (\<forall>(k, v) \<in> set (HeaderMatch c). \<exists>(k', v') \<in> set rh. EqualFold uni k k' \<and> v' = v))
   \<and> ((\<forall>b \<in> set s \<union> set t. (of_char b :: nat) < 0x80) \<longrightarrow>
        (EqualFold uni s t \<longleftrightarrow> map lowerByte s = map lowerByte t))
   \<and> (HeaderMatch c = [] \<longrightarrow> MatchesHeaders uni c rh)
   \<and> (\<forall>i < length (Conditions route).
         MatchesHeaders uni (Conditions route ! i) rh
         \<and> (\<forall>j<i. \<not> MatchesHeaders uni (Conditions route ! j) rh)
         \<longrightarrow> selectResponse uni route rh =
               (RouteCondition_GetResponseBody (Conditions route ! i),
                RouteCondition_GetResponseHeaders (Conditions route ! i),
                RouteCondition_GetResponseStatus (Conditions route ! i)))
   \<and> ((\<forall>c \<in> set (Conditions route). \<not> MatchesHeaders uni c rh)
        \<longrightarrow> selectResponse uni route rh =
              (Route_GetResponseBody route, Route_GetResponseHeaders route,
               Route_GetResponseStatus route))"
proof (intro conjI allI impI)
  show "MatchesHeaders uni c rh \<longleftrightarrow>
      (\<forall>(k, v) \<in> set (HeaderMatch c). \<exists>(k', v') \<in> set rh. EqualFold uni k k' \<and> v' = v)"
    by (simp add: MatchesHeaders_def matchesAll_iff)
next
  assume "\<forall>b \<in> set s \<union> set t. (of_char b :: nat) < 0x80"
  then show "EqualFold uni s t \<longleftrightarrow> map lowerByte s = map lowerByte t"
    by (intro EqualFold_ascii) auto
next
  assume "HeaderMatch c = []"
  then show "MatchesHeaders uni c rh" by (simp add: MatchesHeaders_def)
next
  fix i
  assume "i < length (Conditions route)"
    and "MatchesHeaders uni (Conditions route ! i) rh
         \<and> (\<forall>j<i. \<not> MatchesHeaders uni (Conditions route ! j) rh)"
  then show "selectResponse uni route rh =
               (RouteCondition_GetResponseBody (Conditions route ! i),
                RouteCondition_GetResponseHeaders (Conditions route ! i),
                RouteCondition_GetResponseStatus (Conditions route ! i))"
    by (simp add: selectResponse_def checkConditions_first)
next
  assume "\<forall>c \<in> set (Conditions route). \<not> MatchesHeaders uni c rh"
  then have "checkConditions uni (Conditions route) rh = None"
    by (simp add: checkConditions_none)
  then show "selectResponse uni route rh =
              (Route_GetResponseBody route, Route_GetResponseHeaders route,
               Route_GetResponseStatus route)"
    by (simp add: selectResponse_def)
qed

text \<open>
  The catch-all condition matches; a request with the header \<^verbatim>\<open>X-Api-Key: admin-key\<close> gets
  the second condition of the secured route, whose required name is written
  \<^verbatim>\<open>X-API-Key\<close>, and the two names have the same lower-case form; a request with a wrong
  token gets the route's own 401. A required name written with the long s, \<^verbatim>\<open>X-Te\<close>
  U+017F \<^verbatim>\<open>t\<close>, is matched by the request header \<^verbatim>\<open>X-Test\<close>.
\<close>

theorem condition_matching_first_match_witness:
  "MatchesHeaders foldExcerpt catchAll [(''Accept'', ''text/html'')]
   \<and> MatchesHeaders foldExcerpt (Conditions secureRoute ! 1) [(''X-Api-Key'', ''admin-key'')]
   \<and> map lowerByte ''X-API-Key'' = map lowerByte ''X-Api-Key''
   \<and> selectResponse foldExcerpt secureRoute [(''X-Api-Key'', ''admin-key'')] =
       (''{\"data\": \"admin information\"}'',
        [(''Content-Type'', ''application/json''), (''X-Admin'', ''true'')], 200)
   \<and> selectResponse foldExcerpt secureRoute [(''Authorization'', ''Bearer wrong-token'')] =
       (''Unauthorized'', [(''Content-Type'', ''application/json'')], 401)
   \<and> MatchesHeaders foldExcerpt
        (catchAll\<lparr>HeaderMatch :=
           [([CHR ''X'', CHR ''-'', CHR ''T'', CHR ''e'', CHR 0xC5, CHR 0xBF, CHR ''t''], ''1'')]\<rparr>)
        [(''X-Test'', ''1'')]"
proof -
  let ?key = "[(''X-Api-Key'', ''admin-key'')]"
  let ?wrong = "[(''Authorization'', ''Bearer wrong-token'')]"
  let ?longs = "[CHR ''X'', CHR ''-'', CHR ''T'', CHR ''e'', CHR 0xC5, CHR 0xBF, CHR ''t'']"
  let ?c = "catchAll\<lparr>HeaderMatch := [(?longs, ''1'')]\<rparr>"
  note main = condition_matching_first_match [where uni = foldExcerpt and route = secureRoute]
  have e: "HeaderMatch catchAll = []"
    by (simp add: catchAll_def)
  have len: "(1::nat) < length (Conditions secureRoute)"
    by (simp add: secureRoute_def)
  have m1: "MatchesHeaders foldExcerpt (Conditions secureRoute ! 1) ?key"
    by code_simp
  have m0: "\<forall>j<(1::nat). \<not> MatchesHeaders foldExcerpt (Conditions secureRoute ! j) ?key"
  proof -
    have "\<not> MatchesHeaders foldExcerpt (Conditions secureRoute ! 0) ?key"
      by code_simp
    then show ?thesis by simp
  qed
  have none: "\<forall>c \<in> set (Conditions secureRoute). \<not> MatchesHeaders foldExcerpt c ?wrong"
  proof -
    have "\<not> MatchesHeaders foldExcerpt (Conditions secureRoute ! 0) ?wrong"
      and "\<not> MatchesHeaders foldExcerpt (Conditions secureRoute ! 1) ?wrong"
      by code_simp+
    then show ?thesis by (simp add: secureRoute_def)
  qed
  have ascii: "\<forall>b \<in> set ''X-API-Key'' \<union> set ''X-Api-Key''. (of_char b :: nat) < 0x80"
    by simp
  have fold: "EqualFold foldExcerpt ''X-API-Key'' ''X-Api-Key''"
    by code_simp
  have longs: "EqualFold foldExcerpt ?longs ''X-Test''"
    by code_simp
  have all: "\<forall>(k, v) \<in> set (HeaderMatch ?c). \<exists>(k', v') \<in> set [(''X-Test'', ''1'')].
               EqualFold foldExcerpt k k' \<and> v' = v"
    using longs by simp
  from main [where c = catchAll and rh = "[(''Accept'', ''text/html'')]"] e
  have a: "MatchesHeaders foldExcerpt catchAll [(''Accept'', ''text/html'')]" by blast
  from main [where s = "''X-API-Key''" and t = "''X-Api-Key''"] ascii fold
  have l: "map lowerByte ''X-API-Key'' = map lowerByte ''X-Api-Key''" by blast
  from main [where rh = ?key] len m1 m0
  have b: "selectResponse foldExcerpt secureRoute ?key =
       (RouteCondition_GetResponseBody (Conditions secureRoute ! 1),
        RouteCondition_GetResponseHeaders (Conditions secureRoute ! 1),
        RouteCondition_GetResponseStatus (Conditions secureRoute ! 1))" by blast
  from main [where rh = ?wrong] none
  have c: "selectResponse foldExcerpt secureRoute ?wrong =
              (Route_GetResponseBody secureRoute, Route_GetResponseHeaders secureRoute,
               Route_GetResponseStatus secureRoute)" by blast
  from main [where c = ?c and rh = "[(''X-Test'', ''1'')]"] all
  have d: "MatchesHeaders foldExcerpt ?c [(''X-Test'', ''1'')]" by blast
  have v: "RouteCondition_GetResponseBody (Conditions secureRoute ! 1) = ''{\"data\": \"admin information\"}''"
    "RouteCondition_GetResponseHeaders (Conditions secureRoute ! 1) =
       [(''Content-Type'', ''application/json''), (''X-Admin'', ''true'')]"
    "RouteCondition_GetResponseStatus (Conditions secureRoute ! 1) = 200"
    "Route_GetResponseBody secureRoute = ''Unauthorized''"
    "Route_GetResponseHeaders secureRoute = [(''Content-Type'', ''application/json'')]"
    "Route_GetResponseStatus secureRoute = 401"
    by (simp_all add: secureRoute_def config_simps)
  from a m1 l b c d show ?thesis
    unfolding v by blast
qed

text \<open>
  C9. Matching is a function of its two mappings alone: \<open>MatchesHeaders\<close> returns a
  truth value and changes nothing, and two runs on mappings with the same entries give the
  same answer in whatever order the entries of either mapping are visited.
\<close>

theorem MatchesHeaders_order_independent:
  assumes "set (HeaderMatch c) = set (HeaderMatch c')" and "set rh = set rh'"
  shows "MatchesHeaders uni c rh = MatchesHeaders uni c' rh'"
  using assms by (simp add: MatchesHeaders_def matchesAll_iff)

theorem MatchesHeaders_order_independent_witness:
  "set (HeaderMatch \<lparr>HeaderMatch = [(''Authorization'', ''Bearer token123''), (''X-API-Key'', ''secret'')],
          CondResponseBody = [], CondResponseHeader = None, CondResponseStatus = 0\<rparr>)
     = set (HeaderMatch \<lparr>HeaderMatch = [(''X-API-Key'', ''secret''), (''Authorization'', ''Bearer token123'')],
          CondResponseBody = [], CondResponseHeader = None, CondResponseStatus = 0\<rparr>)
   \<and> set [(''x-api-key'', ''secret''), (''Authorization'', ''Bearer token123'')]
     = set [(''Authorization'', ''Bearer token123''), (''x-api-key'', ''secret'')]
   \<and> MatchesHeaders foldExcerpt \<lparr>HeaderMatch = [(''Authorization'', ''Bearer token123''), (''X-API-Key'', ''secret'')],
          CondResponseBody = [], CondResponseHeader = None, CondResponseStatus = 0\<rparr>
         [(''x-api-key'', ''secret''), (''Authorization'', ''Bearer token123'')]
     = MatchesHeaders foldExcerpt \<lparr>HeaderMatch = [(''X-API-Key'', ''secret''), (''Authorization'', ''Bearer token123'')],
          CondResponseBody = [], CondResponseHeader = None, CondResponseStatus = 0\<rparr>
         [(''Authorization'', ''Bearer token123''), (''x-api-key'', ''secret'')]"
proof -
  have s1: "set (HeaderMatch \<lparr>HeaderMatch = [(''Authorization'', ''Bearer token123''), (''X-API-Key'', ''secret'')],
          CondResponseBody = [], CondResponseHeader = None, CondResponseStatus = 0\<rparr>)
     = set (HeaderMatch \<lparr>HeaderMatch = [(''X-API-Key'', ''secret''), (''Authorization'', ''Bearer token123'')],
          CondResponseBody = [], CondResponseHeader = None, CondResponseStatus = 0\<rparr>)"
    by auto
  have s2: "set [(''x-api-key'', ''secret''), (''Authorization'', ''Bearer token123'')]
     = set [(''Authorization'', ''Bearer token123''), (''x-api-key'', ''secret'')]"
    by auto
  from MatchesHeaders_order_independent [OF s1 s2] s1 s2 show ?thesis by blast
qed

section \<open>The status getters\<close>

text \<open>
  C6, as the code has it. A configured status of zero makes the getter of a route and the
  getter of a condition return 200. Every other configured status, a negative one too, is
  returned as it is. The status that the handler sets is the getter's result for the
  source it selected.
\<close>

theorem GetResponseStatus_defaults_zero:
  "(ResponseStatus r = 0 \<longrightarrow> Route_GetResponseStatus r = 200)
   \<and> (ResponseStatus r \<noteq> 0 \<longrightarrow> Route_GetResponseStatus r = ResponseStatus r)
   \<and> (CondResponseStatus c = 0 \<longrightarrow> RouteCondition_GetResponseStatus c = 200)
   \<and> (CondResponseStatus c \<noteq> 0 \<longrightarrow> RouteCondition_GetResponseStatus c = CondResponseStatus c)
   \<and> respStatusCode (composeResponse uni ctx route) = snd (snd (selectResponse uni route (extractHeaders ctx)))"
  by (simp add: Route_GetResponseStatus_def RouteCondition_GetResponseStatus_def
        composeResponse_eq split: prod.splits)

theorem GetResponseStatus_defaults_zero_witness:
  "Route_GetResponseStatus helloRoute = 200
   \<and> Route_GetResponseStatus secureRoute = 401
   \<and> RouteCondition_GetResponseStatus catchAll = 200
   \<and> RouteCondition_GetResponseStatus (catchAll\<lparr>CondResponseStatus := - 1\<rparr>) = - 1"
proof -
  have "ResponseStatus helloRoute = 0" "ResponseStatus secureRoute \<noteq> 0"
       "ResponseStatus secureRoute = 401"
       "CondResponseStatus catchAll = 0"
       "CondResponseStatus (catchAll\<lparr>CondResponseStatus := - 1\<rparr>) \<noteq> 0"
       "CondResponseStatus (catchAll\<lparr>CondResponseStatus := - 1\<rparr>) = - 1"
    by (simp_all add: helloRoute_def secureRoute_def catchAll_def)
  with GetResponseStatus_defaults_zero [of helloRoute catchAll]
       GetResponseStatus_defaults_zero [of secureRoute "catchAll\<lparr>CondResponseStatus := - 1\<rparr>"]
  show ?thesis by metis
qed

text \<open>A configured status of \<open>-1\<close> is not turned into 200.\<close>

theorem GetResponseStatus_negative_counterexample:
  "Route_GetResponseStatus (helloRoute\<lparr>ResponseStatus := - 1\<rparr>) \<noteq> 200
   \<and> RouteCondition_GetResponseStatus (catchAll\<lparr>CondResponseStatus := - 1\<rparr>) \<noteq> 200"
  by (simp add: Route_GetResponseStatus_def RouteCondition_GetResponseStatus_def
        helloRoute_def catchAll_def)

section \<open>The delay parameter\<close>

text \<open>
  C5. The resolver of the \<^verbatim>\<open>delay\<close> parameter reads a string that is not a duration as
  a count of milliseconds, \<^verbatim>\<open>time.Duration(ms) * time.Millisecond\<close>, and does not look
  whether the product fits the signed 64-bit count of nanoseconds. At the request
  \<^verbatim>\<open>?delay=9223372036855\<close> the duration parser rejects the string for its missing unit,
  \<^verbatim>\<open>Atoi\<close> reads it, and the product wraps around: the resolver returns a negative number
  of nanoseconds and no error, not 9223372036855 milliseconds. One less, 9223372036854,
  is the largest count that resolves to its milliseconds. The same count written as a
  duration, \<^verbatim>\<open>9223372036855ms\<close>, is refused by the duration parser, which does check the
  range, and resolves to the error.
\<close>

theorem parseDelayParam_integer_overflow:
  "ParseDuration ''9223372036855'' = Inl ''time: missing unit in duration \"9223372036855\"''
   \<and> Atoi ''9223372036855'' = Some 9223372036855
   \<and> parseDelayParam (newRequestCtx [] [(''delay'', ''9223372036855'')]) =
       Inr (- 9223372036854551616)
   \<and> parseDelayParam (newRequestCtx [] [(''delay'', ''9223372036855'')]) \<noteq>
       Inr (9223372036855 * Millisecond)
   \<and> parseDelayParam (newRequestCtx [] [(''delay'', ''9223372036854'')]) =
       Inr (9223372036854 * Millisecond)
   \<and> parseDelayParam (newRequestCtx [] [(''delay'', ''9223372036855ms'')]) =
       Inl ''time: invalid duration \"9223372036855ms\"''"
proof -
  have d: "ParseDuration ''9223372036855'' = Inl ''time: missing unit in duration \"9223372036855\"''"
    by code_simp
  have a: "Atoi ''9223372036855'' = Some 9223372036855"
    by code_simp
  have p: "QueryArgs_Peek (newRequestCtx [] [(''delay'', ''9223372036855'')]) ''delay'' = ''9223372036855''"
    by (simp add: newRequestCtx_def QueryArgs_Peek_def)
  have r: "parseDelayParam (newRequestCtx [] [(''delay'', ''9223372036855'')]) = Inr (- 9223372036854551616)"
    by (simp add: parseDelayParam_def p d a Let_def wrap64_def Millisecond_def)
  have m: "parseDelayParam (newRequestCtx [] [(''delay'', ''9223372036854'')]) =
       Inr (9223372036854 * Millisecond)"
    by code_simp
  have s: "parseDelayParam (newRequestCtx [] [(''delay'', ''9223372036855ms'')]) =
       Inl ''time: invalid duration \"9223372036855ms\"''"
    by code_simp
  from d a r m s show ?thesis by (simp add: Millisecond_def)
qed

text \<open>
  C2. A request whose \<^verbatim>\<open>delay\<close> parameter is parsed and fails both as a duration and as
  an integer is answered with status 400, the content type \<^verbatim>\<open>text/plain\<close> and the body
  \<^verbatim>\<open>Invalid delay parameter: \<close> followed by the message of the duration parser. Nothing
  else happens: the answer is the same for every route and for every outcome of a wait, so
  no wait, no matching and no composition took part in it.
\<close>

theorem invalid_delay_bad_request:
  assumes "QueryArgs_Peek ctx ''delay'' \<noteq> []"
    and "ParseDuration (QueryArgs_Peek ctx ''delay'') = Inl err"
    and "Atoi (QueryArgs_Peek ctx ''delay'') = None"
  shows "handleRoute uni sel ctx route =
           ctx\<lparr>respStatusCode := 400,
               respHeader := respHeader ctx @ [(''Content-Type'', ''text/plain'')],
               respBody := respBody ctx @ ''Invalid delay parameter: '' @ err\<rparr>
         \<and> respStatusCode (handleRoute uni sel ctx route) = 400
         \<and> Header_PeekContentType (handleRoute uni sel ctx route) = ''text/plain''
         \<and> respBody (handleRoute uni sel ctx route) = respBody ctx @ ''Invalid delay parameter: '' @ err
         \<and> handleRoute uni sel ctx route = handleRoute uni sel' ctx route'"
proof -
  have p: "parseDelayParam ctx = Inl err"
    using assms by (rule parseDelayParam_Inl)
  have h: "\<And>s r. handleRoute uni s ctx r =
           ctx\<lparr>respStatusCode := 400,
               respHeader := respHeader ctx @ [(''Content-Type'', ''text/plain'')],
               respBody := respBody ctx @ ''Invalid delay parameter: '' @ err\<rparr>"
    by (simp add: handleRoute_def p WriteString_def SetContentType_def Header_Set_def
          SetStatusCode_def)
  have ct: "Header_PeekContentType
              (ctx\<lparr>respStatusCode := 400,
               respHeader := respHeader ctx @ [(''Content-Type'', ''text/plain'')],
               respBody := respBody ctx @ ''Invalid delay parameter: '' @ err\<rparr>) = ''text/plain''"
    by (simp add: Header_PeekContentType_eq lastSet_append_single sameHeaderName_refl
          del: sameHeaderName.simps)
  show ?thesis
    unfolding h using ct by simp
qed

text \<open>The request \<^verbatim>\<open>?delay=invalid\<close> of the repository's tests, on the secured route and
  with the shutdown channel closed.\<close>

theorem invalid_delay_bad_request_witness:
  "respStatusCode (handleRoute foldExcerpt ShutdownClosed (newRequestCtx [] [(''delay'', ''invalid'')]) secureRoute) = 400
   \<and> Header_PeekContentType
        (handleRoute foldExcerpt ShutdownClosed (newRequestCtx [] [(''delay'', ''invalid'')]) secureRoute) = ''text/plain''
   \<and> respBody (handleRoute foldExcerpt ShutdownClosed (newRequestCtx [] [(''delay'', ''invalid'')]) secureRoute) =
        ''Invalid delay parameter: time: invalid duration \"invalid\"''"
proof -
  let ?ctx = "newRequestCtx [] [(''delay'', ''invalid'')]"
  have p: "QueryArgs_Peek ?ctx ''delay'' = ''invalid''"
    by (simp add: newRequestCtx_def QueryArgs_Peek_def)
  have ne: "QueryArgs_Peek ?ctx ''delay'' \<noteq> []"
    by (simp add: p)
  have d: "ParseDuration (QueryArgs_Peek ?ctx ''delay'') = Inl ''time: invalid duration \"invalid\"''"
    unfolding p by code_simp
  have a: "Atoi (QueryArgs_Peek ?ctx ''delay'') = None"
    unfolding p by code_simp
  have b: "respBody ?ctx = []"
    by (simp add: newRequestCtx_def)
  from invalid_delay_bad_request [OF ne d a, where uni = foldExcerpt and sel = ShutdownClosed
      and route = secureRoute and sel' = TimerFired and route' = helloRoute]
  have "respStatusCode (handleRoute foldExcerpt ShutdownClosed ?ctx secureRoute) = 400"
    and "Header_PeekContentType (handleRoute foldExcerpt ShutdownClosed ?ctx secureRoute) = ''text/plain''"
    and "respBody (handleRoute foldExcerpt ShutdownClosed ?ctx secureRoute) =
           respBody ?ctx @ ''Invalid delay parameter: '' @ ''time: invalid duration \"invalid\"''"
    by blast+
  with b show ?thesis by simp
qed

section \<open>The wait\<close>

text \<open>
  C4. When the delay of a request is positive and the \<^verbatim>\<open>select\<close> of the sleeper takes the
  closed shutdown channel, the sleeper reports the cancellation and the handler returns
  with the response as it found it: no status, no header and no body are written.
\<close>

theorem shutdown_during_delay_writes_nothing:
  assumes "parseDelayParam ctx = Inr delay" and "0 < delay"
  shows "\<not> sleepWithCancellation ShutdownClosed delay
         \<and> handleRoute uni ShutdownClosed ctx route = ctx"
  using assms by (simp add: handleRoute_def sleepWithCancellation_def)

theorem shutdown_during_delay_writes_nothing_witness:
  "parseDelayParam (newRequestCtx [] [(''delay'', ''200ms'')]) = Inr 200000000
   \<and> (0::int) < 200000000
   \<and> \<not> sleepWithCancellation ShutdownClosed 200000000
   \<and> handleRoute foldExcerpt ShutdownClosed (newRequestCtx [] [(''delay'', ''200ms'')]) helloRoute =
       newRequestCtx [] [(''delay'', ''200ms'')]"
proof -
  have p: "parseDelayParam (newRequestCtx [] [(''delay'', ''200ms'')]) = Inr 200000000"
    by code_simp
  have pos: "(0::int) < 200000000" by simp
  from shutdown_during_delay_writes_nothing [OF p pos, where uni = foldExcerpt and route = helloRoute]
    p pos
  show ?thesis by simp
qed

text \<open>
  C7. For a duration of zero or less the sleeper reports completion whatever the
  \<^verbatim>\<open>select\<close> would have taken: it returns before the timer and the \<^verbatim>\<open>select\<close>. A request
  whose delay resolves to zero or less gets the response of its route, whether or not the
  shutdown channel is closed. The status is that of the selected source; the headers set
  are those of the selected source, then \<^verbatim>\<open>text/plain\<close> where no content type is in
  force, then \<^verbatim>\<open>application/json\<close> for a dump; the body written is the body of the
  selected source, or the dump. The selected source is the first condition that matches
  the request, and the route itself when none does.
\<close>

theorem nonpositive_delay_completes:
  "(delay \<le> 0 \<longrightarrow> sleepWithCancellation sel delay)
   \<and> (parseDelayParam ctx = Inr delay \<and> delay \<le> 0 \<longrightarrow>
        respStatusCode (handleRoute uni sel ctx route) =
          snd (snd (selectResponse uni route (extractHeaders ctx)))
        \<and> respHeader (handleRoute uni sel ctx route) =
            respHeader ctx @ fst (snd (selectResponse uni route (extractHeaders ctx)))
            @ (if lastSet ''Content-Type''
                    (respHeader ctx @ fst (snd (selectResponse uni route (extractHeaders ctx)))) = []
                  \<and> respNoDefaultContentType ctx
               then [(''Content-Type'', ''text/plain'')] else [])
            @ (if Route_GetResponseDump route then [(''Content-Type'', ''application/json'')]
               else [])
        \<and> respBody (handleRoute uni sel ctx route) =
            respBody ctx
            @ (if Route_GetResponseDump route
               then MarshalIndent \<lparr>Headers = extractHeaders ctx,
                                    QueryParameters = extractQueryParameters ctx\<rparr>
               else fst (selectResponse uni route (extractHeaders ctx)))
        \<and> reqHeader (handleRoute uni sel ctx route) = reqHeader ctx
        \<and> reqQueryArgs (handleRoute uni sel ctx route) = reqQueryArgs ctx
        \<and> respNoDefaultContentType (handleRoute uni sel ctx route) = respNoDefaultContentType ctx)
   \<and> ((\<forall>c \<in> set (Conditions route). \<not> MatchesHeaders uni c rh) \<longrightarrow>
        selectResponse uni route rh =
          (ResponseBody route, Route_GetResponseHeaders route,
           if ResponseStatus route = 0 then 200 else ResponseStatus route))
   \<and> (\<forall>i < length (Conditions route).
         MatchesHeaders uni (Conditions route ! i) rh
         \<and> (\<forall>j<i. \<not> MatchesHeaders uni (Conditions route ! j) rh)
         \<longrightarrow> selectResponse uni route rh =
               (CondResponseBody (Conditions route ! i),
                RouteCondition_GetResponseHeaders (Conditions route ! i),
                if CondResponseStatus (Conditions route ! i) = 0 then 200
                else CondResponseStatus (Conditions route ! i)))"
proof (intro conjI allI impI)
  assume "delay \<le> 0"
  then show "sleepWithCancellation sel delay"
    by (simp add: sleepWithCancellation_def)
next
  assume "\<forall>c \<in> set (Conditions route). \<not> MatchesHeaders uni c rh"
  then have "checkConditions uni (Conditions route) rh = None"
    by (simp add: checkConditions_none)
  then show "selectResponse uni route rh =
          (ResponseBody route, Route_GetResponseHeaders route,
           if ResponseStatus route = 0 then 200 else ResponseStatus route)"
    by (simp add: selectResponse_def Route_GetResponseBody_def Route_GetResponseStatus_def)
next
  fix i
  assume "i < length (Conditions route)"
    and "MatchesHeaders uni (Conditions route ! i) rh
         \<and> (\<forall>j<i. \<not> MatchesHeaders uni (Conditions route ! j) rh)"
  then show "selectResponse uni route rh =
               (CondResponseBody (Conditions route ! i),
                RouteCondition_GetResponseHeaders (Conditions route ! i),
                if CondResponseStatus (Conditions route ! i) = 0 then 200
                else CondResponseStatus (Conditions route ! i))"
    by (simp add: selectResponse_def checkConditions_first RouteCondition_GetResponseBody_def
          RouteCondition_GetResponseStatus_def)
next
  assume a: "parseDelayParam ctx = Inr delay \<and> delay \<le> 0"
  then have h: "handleRoute uni sel ctx route = composeResponse uni ctx route"
    by (intro handleRoute_composed [of ctx delay]) simp_all
  obtain b hs st where s: "selectResponse uni route (extractHeaders ctx) = (b, hs, st)"
    by (cases "selectResponse uni route (extractHeaders ctx)") auto
  show "respStatusCode (handleRoute uni sel ctx route) =
          snd (snd (selectResponse uni route (extractHeaders ctx)))"
    unfolding h by (simp add: composeResponse_eq s)
  show "respHeader (handleRoute uni sel ctx route) =
            respHeader ctx @ fst (snd (selectResponse uni route (extractHeaders ctx)))
            @ (if lastSet ''Content-Type''
                    (respHeader ctx @ fst (snd (selectResponse uni route (extractHeaders ctx)))) = []
                  \<and> respNoDefaultContentType ctx
               then [(''Content-Type'', ''text/plain'')] else [])
            @ (if Route_GetResponseDump route then [(''Content-Type'', ''application/json'')]
               else [])"
    unfolding h by (simp add: composeResponse_eq s)
  show "respBody (handleRoute uni sel ctx route) =
            respBody ctx
            @ (if Route_GetResponseDump route
               then MarshalIndent \<lparr>Headers = extractHeaders ctx,
                                    QueryParameters = extractQueryParameters ctx\<rparr>
               else fst (selectResponse uni route (extractHeaders ctx)))"
    unfolding h by (simp add: composeResponse_eq s)
  show "reqHeader (handleRoute uni sel ctx route) = reqHeader ctx"
    unfolding h by (simp add: composeResponse_eq s)
  show "reqQueryArgs (handleRoute uni sel ctx route) = reqQueryArgs ctx"
    unfolding h by (simp add: composeResponse_eq s)
  show "respNoDefaultContentType (handleRoute uni sel ctx route) = respNoDefaultContentType ctx"
    unfolding h by (simp add: composeResponse_eq s)
qed

text \<open>
  With the shutdown channel closed: the request \<^verbatim>\<open>?delay=-100ms\<close> with a valid token on
  the secured route gets the response of the first condition; the request \<^verbatim>\<open>?delay=-5\<close>
  without a token gets the route's own 401; the request \<^verbatim>\<open>?delay=0s\<close> on the route of
  the repository's test gets its body and its custom header.
\<close>

theorem nonpositive_delay_completes_witness:
  "sleepWithCancellation ShutdownClosed (- 100000000)
   \<and> parseDelayParam (newRequestCtx [(''Authorization'', ''Bearer valid-token'')]
        [(''delay'', ''-100ms'')]) = Inr (- 100000000)
   \<and> respStatusCode (handleRoute foldExcerpt ShutdownClosed
        (newRequestCtx [(''Authorization'', ''Bearer valid-token'')] [(''delay'', ''-100ms'')])
        secureRoute) = 200
   \<and> respHeader (handleRoute foldExcerpt ShutdownClosed
        (newRequestCtx [(''Authorization'', ''Bearer valid-token'')] [(''delay'', ''-100ms'')])
        secureRoute) = [(''Content-Type'', ''application/json''), (''X-Secure'', ''true'')]
   \<and> respBody (handleRoute foldExcerpt ShutdownClosed
        (newRequestCtx [(''Authorization'', ''Bearer valid-token'')] [(''delay'', ''-100ms'')])
        secureRoute) = ''{\"data\": \"secret information\"}''
   \<and> parseDelayParam (newRequestCtx [] [(''delay'', ''-5'')]) = Inr (- 5000000)
   \<and> respStatusCode (handleRoute foldExcerpt ShutdownClosed
        (newRequestCtx [] [(''delay'', ''-5'')]) secureRoute) = 401
   \<and> respHeader (handleRoute foldExcerpt ShutdownClosed
        (newRequestCtx [] [(''delay'', ''-5'')]) secureRoute) =
       [(''Content-Type'', ''application/json'')]
   \<and> respBody (handleRoute foldExcerpt ShutdownClosed
        (newRequestCtx [] [(''delay'', ''-5'')]) secureRoute) = ''Unauthorized''
   \<and> parseDelayParam (newRequestCtx [] [(''delay'', ''0s'')]) = Inr 0
   \<and> respStatusCode (handleRoute foldExcerpt ShutdownClosed
        (newRequestCtx [] [(''delay'', ''0s'')]) testRoute) = 200
   \<and> respHeader (handleRoute foldExcerpt ShutdownClosed
        (newRequestCtx [] [(''delay'', ''0s'')]) testRoute) = [(''X-Custom'', ''custom-value'')]
   \<and> respBody (handleRoute foldExcerpt ShutdownClosed
        (newRequestCtx [] [(''delay'', ''0s'')]) testRoute) = ''Test Response''"
proof -
  let ?tok = "newRequestCtx [(''Authorization'', ''Bearer valid-token'')] [(''delay'', ''-100ms'')]"
  let ?bare = "newRequestCtx [] [(''delay'', ''-5'')]"
  let ?zero = "newRequestCtx [] [(''delay'', ''0s'')]"
  note main = nonpositive_delay_completes [where uni = foldExcerpt and sel = ShutdownClosed]
  have p1: "parseDelayParam ?tok = Inr (- 100000000)" by code_simp
  have p2: "parseDelayParam ?bare = Inr (- 5000000)" by code_simp
  have p3: "parseDelayParam ?zero = Inr 0" by code_simp
  have n: "(- 100000000 :: int) \<le> 0" "(- 5000000 :: int) \<le> 0" "(0 :: int) \<le> 0"
    by simp_all
  have len: "0 < length (Conditions secureRoute)"
    by (simp add: secureRoute_def)
  have m: "MatchesHeaders foldExcerpt (Conditions secureRoute ! 0) (extractHeaders ?tok)"
    by code_simp
  have f: "\<forall>j<0. \<not> MatchesHeaders foldExcerpt (Conditions secureRoute ! j) (extractHeaders ?tok)"
    by simp
  have none: "\<forall>c \<in> set (Conditions secureRoute). \<not> MatchesHeaders foldExcerpt c (extractHeaders ?bare)"
  proof -
    have "\<not> MatchesHeaders foldExcerpt (Conditions secureRoute ! 0) (extractHeaders ?bare)"
      and "\<not> MatchesHeaders foldExcerpt (Conditions secureRoute ! 1) (extractHeaders ?bare)"
      by code_simp+
    then show ?thesis by (simp add: secureRoute_def)
  qed
  have none': "\<forall>c \<in> set (Conditions testRoute). \<not> MatchesHeaders foldExcerpt c (extractHeaders ?zero)"
    by (simp add: testRoute_def)
  from main [where delay = "- 100000000" and ctx = ?tok and route = secureRoute
               and rh = "extractHeaders ?tok"] p1 n(1) len m f
  have a: "sleepWithCancellation ShutdownClosed (- 100000000)"
    "respStatusCode (handleRoute foldExcerpt ShutdownClosed ?tok secureRoute) =
          snd (snd (selectResponse foldExcerpt secureRoute (extractHeaders ?tok)))"
    "respHeader (handleRoute foldExcerpt ShutdownClosed ?tok secureRoute) =
            respHeader ?tok @ fst (snd (selectResponse foldExcerpt secureRoute (extractHeaders ?tok)))
            @ (if lastSet ''Content-Type''
                    (respHeader ?tok @ fst (snd (selectResponse foldExcerpt secureRoute (extractHeaders ?tok)))) = []
                  \<and> respNoDefaultContentType ?tok
               then [(''Content-Type'', ''text/plain'')] else [])
            @ (if Route_GetResponseDump secureRoute then [(''Content-Type'', ''application/json'')]
               else [])"
    "respBody (handleRoute foldExcerpt ShutdownClosed ?tok secureRoute) =
            respBody ?tok
            @ (if Route_GetResponseDump secureRoute
               then MarshalIndent \<lparr>Headers = extractHeaders ?tok,
                                    QueryParameters = extractQueryParameters ?tok\<rparr>
               else fst (selectResponse foldExcerpt secureRoute (extractHeaders ?tok)))"
    "selectResponse foldExcerpt secureRoute (extractHeaders ?tok) =
               (CondResponseBody (Conditions secureRoute ! 0),
                RouteCondition_GetResponseHeaders (Conditions secureRoute ! 0),
                if CondResponseStatus (Conditions secureRoute ! 0) = 0 then 200
                else CondResponseStatus (Conditions secureRoute ! 0))"
    by blast+
  from main [where delay = "- 5000000" and ctx = ?bare and route = secureRoute
               and rh = "extractHeaders ?bare"] p2 n(2) none
  have b: "respStatusCode (handleRoute foldExcerpt ShutdownClosed ?bare secureRoute) =
          snd (snd (selectResponse foldExcerpt secureRoute (extractHeaders ?bare)))"
    "respHeader (handleRoute foldExcerpt ShutdownClosed ?bare secureRoute) =
            respHeader ?bare @ fst (snd (selectResponse foldExcerpt secureRoute (extractHeaders ?bare)))
            @ (if lastSet ''Content-Type''
                    (respHeader ?bare @ fst (snd (selectResponse foldExcerpt secureRoute (extractHeaders ?bare)))) = []
                  \<and> respNoDefaultContentType ?bare
               then [(''Content-Type'', ''text/plain'')] else [])
            @ (if Route_GetResponseDump secureRoute then [(''Content-Type'', ''application/json'')]
               else [])"
    "respBody (handleRoute foldExcerpt ShutdownClosed ?bare secureRoute) =
            respBody ?bare
            @ (if Route_GetResponseDump secureRoute
               then MarshalIndent \<lparr>Headers = extractHeaders ?bare,
                                    QueryParameters = extractQueryParameters ?bare\<rparr>
               else fst (selectResponse foldExcerpt secureRoute (extractHeaders ?bare)))"
    "selectResponse foldExcerpt secureRoute (extractHeaders ?bare) =
          (ResponseBody secureRoute, Route_GetResponseHeaders secureRoute,
           if ResponseStatus secureRoute = 0 then 200 else ResponseStatus secureRoute)"
    by blast+
  from main [where delay = 0 and ctx = ?zero and route = testRoute
               and rh = "extractHeaders ?zero"] p3 n(3) none'
  have c: "respStatusCode (handleRoute foldExcerpt ShutdownClosed ?zero testRoute) =
          snd (snd (selectResponse foldExcerpt testRoute (extractHeaders ?zero)))"
    "respHeader (handleRoute foldExcerpt ShutdownClosed ?zero testRoute) =
            respHeader ?zero @ fst (snd (selectResponse foldExcerpt testRoute (extractHeaders ?zero)))
            @ (if lastSet ''Content-Type''
                    (respHeader ?zero @ fst (snd (selectResponse foldExcerpt testRoute (extractHeaders ?zero)))) = []
                  \<and> respNoDefaultContentType ?zero
               then [(''Content-Type'', ''text/plain'')] else [])
            @ (if Route_GetResponseDump testRoute then [(''Content-Type'', ''application/json'')]
               else [])"
    "respBody (handleRoute foldExcerpt ShutdownClosed ?zero testRoute) =
            respBody ?zero
            @ (if Route_GetResponseDump testRoute
               then MarshalIndent \<lparr>Headers = extractHeaders ?zero,
                                    QueryParameters = extractQueryParameters ?zero\<rparr>
               else fst (selectResponse foldExcerpt testRoute (extractHeaders ?zero)))"
    "selectResponse foldExcerpt testRoute (extractHeaders ?zero) =
          (ResponseBody testRoute, Route_GetResponseHeaders testRoute,
           if ResponseStatus testRoute = 0 then 200 else ResponseStatus testRoute)"
    by blast+
  have v: "CondResponseBody (Conditions secureRoute ! 0) = ''{\"data\": \"secret information\"}''"
    "RouteCondition_GetResponseHeaders (Conditions secureRoute ! 0) =
       [(''Content-Type'', ''application/json''), (''X-Secure'', ''true'')]"
    "CondResponseStatus (Conditions secureRoute ! 0) = 200"
    "ResponseBody secureRoute = ''Unauthorized''"
    "Route_GetResponseHeaders secureRoute = [(''Content-Type'', ''application/json'')]"
    "ResponseStatus secureRoute = 401"
    "ResponseBody testRoute = ''Test Response''"
    "Route_GetResponseHeaders testRoute = [(''X-Custom'', ''custom-value'')]"
    "ResponseStatus testRoute = 0"
    "\<not> Route_GetResponseDump secureRoute" "\<not> Route_GetResponseDump testRoute"
    "respBody ?tok = []" "respHeader ?tok = []"
    "respBody ?bare = []" "respHeader ?bare = []"
    "respBody ?zero = []" "respHeader ?zero = []" "\<not> respNoDefaultContentType ?zero"
    by (simp_all add: secureRoute_def testRoute_def newRequestCtx_def
          RouteCondition_GetResponseHeaders_def Route_GetResponseHeaders_def
          Route_GetResponseDump_def)
  have l: "lastSet ''Content-Type'' [(''Content-Type'', ''application/json''), (''X-Secure'', ''true'')]
             = ''application/json''"
    "lastSet ''Content-Type'' [(''Content-Type'', ''application/json'')] = ''application/json''"
    by code_simp+
  show ?thesis
    unfolding a(2-5) b c by (simp add: a(1) p1 p2 p3 v l)
qed

section \<open>The composed response\<close>

text \<open>
  C3, as the code has it. For a route with the dump flag and a request that reaches the
  composition of the response (its delay resolves without error and its wait is not
  cancelled), whether or not a condition matched: the body written is the JSON document
  of the request's extracted headers and query parameters, an object with the two keys
  \<^verbatim>\<open>headers\<close> and \<^verbatim>\<open>query_parameters\<close> indented by two spaces, and the content type in
  force is \<^verbatim>\<open>application/json\<close>, whatever was set before.
\<close>

theorem dump_replaces_body:
  assumes "Route_GetResponseDump route" and "parseDelayParam ctx = Inr delay"
    and "delay \<le> 0 \<or> sel = TimerFired"
  shows "respBody (handleRoute uni sel ctx route) =
           respBody ctx @ MarshalIndent \<lparr>Headers = extractHeaders ctx,
                                          QueryParameters = extractQueryParameters ctx\<rparr>
         \<and> Header_PeekContentType (handleRoute uni sel ctx route) = ''application/json''
         \<and> MarshalIndent dump =
             ''{'' @ [CHR 0x0A] @ ''  \"headers\": '' @ marshalMap (Headers dump) @ '','' @ [CHR 0x0A]
             @ ''  \"query_parameters\": '' @ marshalMap (QueryParameters dump) @ [CHR 0x0A] @ ''}''"
proof -
  have h: "handleRoute uni sel ctx route = composeResponse uni ctx route"
    using assms(2,3) by (rule handleRoute_composed)
  obtain b hs st where s: "selectResponse uni route (extractHeaders ctx) = (b, hs, st)"
    by (cases "selectResponse uni route (extractHeaders ctx)") auto
  have body: "respBody (composeResponse uni ctx route) =
           respBody ctx @ MarshalIndent \<lparr>Headers = extractHeaders ctx,
                                          QueryParameters = extractQueryParameters ctx\<rparr>"
    using assms(1) by (simp add: composeResponse_eq s)
  have "\<exists>sets. respHeader (composeResponse uni ctx route) =
          sets @ [(''Content-Type'', ''application/json'')]"
    using assms(1) by (simp add: composeResponse_eq s)
  then obtain sets where "respHeader (composeResponse uni ctx route) =
          sets @ [(''Content-Type'', ''application/json'')]" ..
  then have "lastSet ''Content-Type'' (respHeader (composeResponse uni ctx route)) = ''application/json''"
    by (simp only: lastSet_append_single sameHeaderName_refl if_True)
  then have ct: "Header_PeekContentType (composeResponse uni ctx route) = ''application/json''"
    by (simp add: Header_PeekContentType_eq)
  have shape: "MarshalIndent dump =
             ''{'' @ [CHR 0x0A] @ ''  \"headers\": '' @ marshalMap (Headers dump) @ '','' @ [CHR 0x0A]
             @ ''  \"query_parameters\": '' @ marshalMap (QueryParameters dump) @ [CHR 0x0A] @ ''}''"
    by (simp add: MarshalIndent_def jsonString_headers jsonString_query_parameters)
  from body ct shape show ?thesis
    unfolding h by simp
qed

text \<open>The dump of the repository's test: one request header, one query parameter.\<close>

theorem dump_replaces_body_witness:
  "respBody (handleRoute foldExcerpt TimerFired
       (newRequestCtx [(''Authorization'', ''Bearer token123'')] [(''debug'', ''true'')]) dumpRoute) =
     ''{'' @ [CHR 0x0A]
     @ ''  \"headers\": {'' @ [CHR 0x0A]
     @ ''    \"Authorization\": \"Bearer token123\"'' @ [CHR 0x0A]
     @ ''  },'' @ [CHR 0x0A]
     @ ''  \"query_parameters\": {'' @ [CHR 0x0A]
     @ ''    \"debug\": \"true\"'' @ [CHR 0x0A]
     @ ''  }'' @ [CHR 0x0A]
     @ ''}''
   \<and> Header_PeekContentType (handleRoute foldExcerpt TimerFired
       (newRequestCtx [(''Authorization'', ''Bearer token123'')] [(''debug'', ''true'')]) dumpRoute) =
     ''application/json''"
proof -
  let ?ctx = "newRequestCtx [(''Authorization'', ''Bearer token123'')] [(''debug'', ''true'')]"
  have dump: "Route_GetResponseDump dumpRoute"
    by (simp add: dumpRoute_def Route_GetResponseDump_def)
  have p: "parseDelayParam ?ctx = Inr 0"
    by code_simp
  have t: "(0::int) \<le> 0 \<or> TimerFired = TimerFired"
    by simp
  have b: "respBody ?ctx = []"
    by (simp add: newRequestCtx_def)
  have m: "MarshalIndent \<lparr>Headers = extractHeaders ?ctx,
                             QueryParameters = extractQueryParameters ?ctx\<rparr> =
     ''{'' @ [CHR 0x0A]
     @ ''  \"headers\": {'' @ [CHR 0x0A]
     @ ''    \"Authorization\": \"Bearer token123\"'' @ [CHR 0x0A]
     @ ''  },'' @ [CHR 0x0A]
     @ ''  \"query_parameters\": {'' @ [CHR 0x0A]
     @ ''    \"debug\": \"true\"'' @ [CHR 0x0A]
     @ ''  }'' @ [CHR 0x0A]
     @ ''}''"
    by code_simp
  from dump_replaces_body [OF dump p t]
  have "respBody (handleRoute foldExcerpt TimerFired ?ctx dumpRoute) =
           respBody ?ctx @ MarshalIndent \<lparr>Headers = extractHeaders ?ctx,
                                          QueryParameters = extractQueryParameters ?ctx\<rparr>"
    and "Header_PeekContentType (handleRoute foldExcerpt TimerFired ?ctx dumpRoute) = ''application/json''"
    by blast+
  then show ?thesis
    by (simp only: b m append_Nil simp_thms)
qed

text \<open>
  On the route with the dump flag, the request \<^verbatim>\<open>?delay=invalid\<close> gets the plain-text
  error and not the dump, and the request \<^verbatim>\<open>?delay=200ms\<close> whose wait is cancelled gets no
  body at all.
\<close>

theorem dump_every_request_counterexample:
  "Route_GetResponseDump dumpRoute
   \<and> respBody (handleRoute foldExcerpt TimerFired (newRequestCtx [] [(''delay'', ''invalid'')]) dumpRoute) =
       ''Invalid delay parameter: time: invalid duration \"invalid\"''
   \<and> respBody (handleRoute foldExcerpt TimerFired (newRequestCtx [] [(''delay'', ''invalid'')]) dumpRoute) \<noteq>
       MarshalIndent \<lparr>Headers = extractHeaders (newRequestCtx [] [(''delay'', ''invalid'')]),
                       QueryParameters = extractQueryParameters (newRequestCtx [] [(''delay'', ''invalid'')])\<rparr>
   \<and> Header_PeekContentType
        (handleRoute foldExcerpt TimerFired (newRequestCtx [] [(''delay'', ''invalid'')]) dumpRoute) \<noteq> ''application/json''
   \<and> respBody (handleRoute foldExcerpt ShutdownClosed (newRequestCtx [] [(''delay'', ''200ms'')]) dumpRoute) = []"
  by code_simp

text \<open>
  C8, as the code has it. For a route without conditions and without the dump flag, and a
  request whose delay resolves without error and whose wait is not cancelled: the status
  is the route's (200 for zero), the body written is the route's body, the headers set are
  the route's headers as they are, and \<^verbatim>\<open>text/plain\<close> is set after them when the response
  would otherwise have no content type. When no header of the route names the content
  type, the content type in force is a plain-text one.
\<close>

theorem no_conditions_route_defaults:
  assumes "Conditions route = []" and "\<not> Route_GetResponseDump route"
    and "parseDelayParam ctx = Inr delay" and "delay \<le> 0 \<or> sel = TimerFired"
  shows "respStatusCode (handleRoute uni sel ctx route) =
           (if ResponseStatus route = 0 then 200 else ResponseStatus route)
         \<and> respBody (handleRoute uni sel ctx route) = respBody ctx @ ResponseBody route
         \<and> respHeader (handleRoute uni sel ctx route) =
             respHeader ctx @ Route_GetResponseHeaders route
               @ (if lastSet ''Content-Type'' (respHeader ctx @ Route_GetResponseHeaders route) = []
                     \<and> respNoDefaultContentType ctx
                  then [(''Content-Type'', ''text/plain'')] else [])
         \<and> ((\<forall>kv \<in> set (respHeader ctx @ Route_GetResponseHeaders route).
                \<not> sameHeaderName (fst kv) ''Content-Type'')
             \<longrightarrow> Header_PeekContentType (handleRoute uni sel ctx route) =
                   (if respNoDefaultContentType ctx then ''text/plain''
                    else ''text/plain; charset=utf-8''))"
proof -
  let ?hs = "Route_GetResponseHeaders route"
  let ?ct = "if lastSet ''Content-Type'' (respHeader ctx @ ?hs) = [] \<and> respNoDefaultContentType ctx
             then [(''Content-Type'', ''text/plain'')] else []"
  have h: "handleRoute uni sel ctx route = composeResponse uni ctx route"
    using assms(3,4) by (rule handleRoute_composed)
  have s: "selectResponse uni route (extractHeaders ctx) =
             (ResponseBody route, ?hs, Route_GetResponseStatus route)"
    using assms(1) by (simp add: selectResponse_def Route_GetResponseBody_def)
  have c: "composeResponse uni ctx route =
          ctx\<lparr>respStatusCode := Route_GetResponseStatus route,
              respHeader := respHeader ctx @ ?hs @ ?ct,
              respBody := respBody ctx @ ResponseBody route\<rparr>"
    using assms(2) by (simp add: composeResponse_eq s)
  have ct: "Header_PeekContentType (composeResponse uni ctx route) =
                   (if respNoDefaultContentType ctx then ''text/plain''
                    else ''text/plain; charset=utf-8'')"
    if "\<forall>kv \<in> set (respHeader ctx @ ?hs). \<not> sameHeaderName (fst kv) ''Content-Type''"
  proof -
    from that have n: "lastSet ''Content-Type'' (respHeader ctx @ ?hs) = []"
      by (rule lastSet_none)
    show ?thesis
    proof (cases "respNoDefaultContentType ctx")
      case True
      then have "respHeader (composeResponse uni ctx route) =
          (respHeader ctx @ ?hs) @ [(''Content-Type'', ''text/plain'')]"
        by (simp add: c n)
      then have "lastSet ''Content-Type'' (respHeader (composeResponse uni ctx route)) = ''text/plain''"
        by (simp only: lastSet_append_single sameHeaderName_refl if_True)
      then show ?thesis using True
        by (simp add: Header_PeekContentType_eq)
    next
      case False
      then have "respHeader (composeResponse uni ctx route) = respHeader ctx @ ?hs"
        by (simp add: c)
      with n False show ?thesis
        by (simp add: Header_PeekContentType_eq c defaultContentType_def)
    qed
  qed
  show ?thesis
    unfolding h using ct
    by (simp add: c Route_GetResponseStatus_def)
qed

text \<open>The route of the repository's test of \<^verbatim>\<open>handleRoute\<close>, which expects the content
  type \<^verbatim>\<open>text/plain; charset=utf-8\<close>.\<close>

theorem no_conditions_route_defaults_witness:
  "respStatusCode (handleRoute foldExcerpt TimerFired (newRequestCtx [] []) testRoute) = 200
   \<and> respBody (handleRoute foldExcerpt TimerFired (newRequestCtx [] []) testRoute) = ''Test Response''
   \<and> respHeader (handleRoute foldExcerpt TimerFired (newRequestCtx [] []) testRoute) =
       [(''X-Custom'', ''custom-value'')]
   \<and> Header_PeekContentType (handleRoute foldExcerpt TimerFired (newRequestCtx [] []) testRoute) =
       ''text/plain; charset=utf-8''"
proof -
  let ?ctx = "newRequestCtx [] []"
  have c: "Conditions testRoute = []"
    by (simp add: testRoute_def)
  have nd: "\<not> Route_GetResponseDump testRoute"
    by (simp add: testRoute_def Route_GetResponseDump_def)
  have p: "parseDelayParam ?ctx = Inr 0"
    by code_simp
  have t: "(0::int) \<le> 0 \<or> TimerFired = TimerFired"
    by simp
  have n: "\<forall>kv \<in> set (respHeader ?ctx @ Route_GetResponseHeaders testRoute).
                \<not> sameHeaderName (fst kv) ''Content-Type''"
    by (simp add: newRequestCtx_def testRoute_def Route_GetResponseHeaders_def)
  have l: "lastSet ''Content-Type'' (respHeader ?ctx @ Route_GetResponseHeaders testRoute) = []"
    by code_simp
  have v: "ResponseStatus testRoute = 0" "ResponseBody testRoute = ''Test Response''"
    "respBody ?ctx = []" "respHeader ?ctx = []" "\<not> respNoDefaultContentType ?ctx"
    "Route_GetResponseHeaders testRoute = [(''X-Custom'', ''custom-value'')]"
    by (simp_all add: testRoute_def newRequestCtx_def Route_GetResponseHeaders_def)
  from no_conditions_route_defaults [OF c nd p t] n
  have "respStatusCode (handleRoute foldExcerpt TimerFired ?ctx testRoute) =
           (if ResponseStatus testRoute = 0 then 200 else ResponseStatus testRoute)"
    and "respBody (handleRoute foldExcerpt TimerFired ?ctx testRoute) = respBody ?ctx @ ResponseBody testRoute"
    and "respHeader (handleRoute foldExcerpt TimerFired ?ctx testRoute) =
             respHeader ?ctx @ Route_GetResponseHeaders testRoute
               @ (if lastSet ''Content-Type'' (respHeader ?ctx @ Route_GetResponseHeaders testRoute) = []
                     \<and> respNoDefaultContentType ?ctx
                  then [(''Content-Type'', ''text/plain'')] else [])"
    and "Header_PeekContentType (handleRoute foldExcerpt TimerFired ?ctx testRoute) =
                   (if respNoDefaultContentType ?ctx then ''text/plain''
                    else ''text/plain; charset=utf-8'')"
    by blast+
  then show ?thesis
    by (simp add: v l del: sameHeaderName.simps)
qed

text \<open>
  A route without conditions that has the dump flag answers with the dump and not with
  its body; and a request whose wait is cancelled gets no body.
\<close>

theorem no_conditions_dump_counterexample:
  "Conditions dumpRoute = []
   \<and> parseDelayParam (newRequestCtx [] []) = Inr 0
   \<and> ResponseBody dumpRoute = ''Original Response''
   \<and> respBody (handleRoute foldExcerpt TimerFired (newRequestCtx [] []) dumpRoute) =
       ''{'' @ [CHR 0x0A] @ ''  \"headers\": {},'' @ [CHR 0x0A]
       @ ''  \"query_parameters\": {}'' @ [CHR 0x0A] @ ''}''
   \<and> respBody (handleRoute foldExcerpt TimerFired (newRequestCtx [] []) dumpRoute) \<noteq> ResponseBody dumpRoute
   \<and> Header_PeekContentType (handleRoute foldExcerpt TimerFired (newRequestCtx [] []) dumpRoute) =
       ''application/json''
   \<and> Conditions helloRoute = []
   \<and> parseDelayParam (newRequestCtx [] [(''delay'', ''200ms'')]) = Inr 200000000
   \<and> respBody (handleRoute foldExcerpt ShutdownClosed (newRequestCtx [] [(''delay'', ''200ms'')]) helloRoute)
       \<noteq> ResponseBody helloRoute"
  by code_simp

text \<open>
  C10, as the code has it. When a condition is the first to match, the route has no dump
  flag, the delay resolves without error and the wait is not cancelled: status, body and
  headers are those of the condition and nothing of the route's own response is merged in.
  An empty override body gives an empty body, and a nil override-header map gives no
  header except the default of the content type.
\<close>

theorem matched_condition_replaces_defaults:
  assumes "i < length (Conditions route)"
    and "MatchesHeaders uni (Conditions route ! i) (extractHeaders ctx)"
    and "\<forall>j<i. \<not> MatchesHeaders uni (Conditions route ! j) (extractHeaders ctx)"
    and "\<not> Route_GetResponseDump route"
    and "parseDelayParam ctx = Inr delay" and "delay \<le> 0 \<or> sel = TimerFired"
  shows "respStatusCode (handleRoute uni sel ctx route) =
           (if CondResponseStatus (Conditions route ! i) = 0 then 200
            else CondResponseStatus (Conditions route ! i))
         \<and> respBody (handleRoute uni sel ctx route) =
             respBody ctx @ CondResponseBody (Conditions route ! i)
         \<and> respHeader (handleRoute uni sel ctx route) =
             respHeader ctx @ RouteCondition_GetResponseHeaders (Conditions route ! i)
               @ (if lastSet ''Content-Type''
                       (respHeader ctx @ RouteCondition_GetResponseHeaders (Conditions route ! i)) = []
                     \<and> respNoDefaultContentType ctx
                  then [(''Content-Type'', ''text/plain'')] else [])
         \<and> (CondResponseBody (Conditions route ! i) = [] \<longrightarrow>
               respBody (handleRoute uni sel ctx route) = respBody ctx)
         \<and> (CondResponseHeader (Conditions route ! i) = None \<longrightarrow>
               respHeader (handleRoute uni sel ctx route) =
                 respHeader ctx
                 @ (if lastSet ''Content-Type'' (respHeader ctx) = [] \<and> respNoDefaultContentType ctx
                    then [(''Content-Type'', ''text/plain'')] else []))"
proof -
  let ?c = "Conditions route ! i"
  have h: "handleRoute uni sel ctx route = composeResponse uni ctx route"
    using assms(5,6) by (rule handleRoute_composed)
  have s: "selectResponse uni route (extractHeaders ctx) =
             (CondResponseBody ?c, RouteCondition_GetResponseHeaders ?c,
              RouteCondition_GetResponseStatus ?c)"
    using checkConditions_first [OF assms(1,2,3)]
    by (simp add: selectResponse_def RouteCondition_GetResponseBody_def)
  have c: "composeResponse uni ctx route =
          ctx\<lparr>respStatusCode := RouteCondition_GetResponseStatus ?c,
              respHeader := respHeader ctx @ RouteCondition_GetResponseHeaders ?c
                 @ (if lastSet ''Content-Type''
                         (respHeader ctx @ RouteCondition_GetResponseHeaders ?c) = []
                       \<and> respNoDefaultContentType ctx
                    then [(''Content-Type'', ''text/plain'')] else []),
              respBody := respBody ctx @ CondResponseBody ?c\<rparr>"
    using assms(4) by (simp add: composeResponse_eq s)
  show ?thesis
    unfolding h
    by (simp add: c RouteCondition_GetResponseStatus_def RouteCondition_GetResponseHeaders_def)
qed

text \<open>
  The secured route with a valid token, and the route whose condition overrides with
  nothing: its own body, header and status 404 do not show.
\<close>

theorem matched_condition_replaces_defaults_witness:
  "respStatusCode (handleRoute foldExcerpt TimerFired
      (newRequestCtx [(''Authorization'', ''Bearer valid-token'')] []) secureRoute) = 200
   \<and> respBody (handleRoute foldExcerpt TimerFired
      (newRequestCtx [(''Authorization'', ''Bearer valid-token'')] []) secureRoute) =
       ''{\"data\": \"secret information\"}''
   \<and> respHeader (handleRoute foldExcerpt TimerFired
      (newRequestCtx [(''Authorization'', ''Bearer valid-token'')] []) secureRoute) =
       [(''Content-Type'', ''application/json''), (''X-Secure'', ''true'')]
   \<and> respStatusCode (handleRoute foldExcerpt TimerFired (newRequestCtx [] []) emptyOverrideRoute) = 200
   \<and> respBody (handleRoute foldExcerpt TimerFired (newRequestCtx [] []) emptyOverrideRoute) = []
   \<and> respHeader (handleRoute foldExcerpt TimerFired (newRequestCtx [] []) emptyOverrideRoute) = []"
proof -
  let ?ctx = "newRequestCtx [(''Authorization'', ''Bearer valid-token'')] []"
  let ?fresh = "newRequestCtx [] []"
  have i: "0 < length (Conditions secureRoute)" "0 < length (Conditions emptyOverrideRoute)"
    by (simp_all add: secureRoute_def emptyOverrideRoute_def)
  have m1: "MatchesHeaders foldExcerpt (Conditions secureRoute ! 0) (extractHeaders ?ctx)"
    by code_simp
  have m2: "MatchesHeaders foldExcerpt (Conditions emptyOverrideRoute ! 0) (extractHeaders ?fresh)"
    by code_simp
  have f: "\<forall>j<0. \<not> MatchesHeaders foldExcerpt (Conditions secureRoute ! j) (extractHeaders ?ctx)"
    "\<forall>j<0. \<not> MatchesHeaders foldExcerpt (Conditions emptyOverrideRoute ! j) (extractHeaders ?fresh)"
    by simp_all
  have nd: "\<not> Route_GetResponseDump secureRoute" "\<not> Route_GetResponseDump emptyOverrideRoute"
    by (simp_all add: secureRoute_def emptyOverrideRoute_def Route_GetResponseDump_def)
  have p1: "parseDelayParam ?ctx = Inr 0"
    by code_simp
  have p2: "parseDelayParam ?fresh = Inr 0"
    by code_simp
  have t: "(0::int) \<le> 0 \<or> TimerFired = TimerFired"
    by simp
  have l: "lastSet ''Content-Type''
             (respHeader ?ctx @ RouteCondition_GetResponseHeaders (Conditions secureRoute ! 0))
           = ''application/json''"
    by code_simp
  have v: "CondResponseStatus (Conditions secureRoute ! 0) = 200"
    "CondResponseBody (Conditions secureRoute ! 0) = ''{\"data\": \"secret information\"}''"
    "RouteCondition_GetResponseHeaders (Conditions secureRoute ! 0) =
       [(''Content-Type'', ''application/json''), (''X-Secure'', ''true'')]"
    "CondResponseStatus (Conditions emptyOverrideRoute ! 0) = 0"
    "CondResponseBody (Conditions emptyOverrideRoute ! 0) = []"
    "CondResponseHeader (Conditions emptyOverrideRoute ! 0) = None"
    "respBody ?ctx = []" "respHeader ?ctx = []"
    "respBody ?fresh = []" "respHeader ?fresh = []" "\<not> respNoDefaultContentType ?fresh"
    by (simp_all add: secureRoute_def emptyOverrideRoute_def newRequestCtx_def
          RouteCondition_GetResponseHeaders_def)
  from matched_condition_replaces_defaults [OF i(1) m1 f(1) nd(1) p1 t]
  have a: "respStatusCode (handleRoute foldExcerpt TimerFired ?ctx secureRoute) =
           (if CondResponseStatus (Conditions secureRoute ! 0) = 0 then 200
            else CondResponseStatus (Conditions secureRoute ! 0))"
    "respBody (handleRoute foldExcerpt TimerFired ?ctx secureRoute) =
             respBody ?ctx @ CondResponseBody (Conditions secureRoute ! 0)"
    "respHeader (handleRoute foldExcerpt TimerFired ?ctx secureRoute) =
             respHeader ?ctx @ RouteCondition_GetResponseHeaders (Conditions secureRoute ! 0)
               @ (if lastSet ''Content-Type''
                       (respHeader ?ctx @ RouteCondition_GetResponseHeaders (Conditions secureRoute ! 0)) = []
                     \<and> respNoDefaultContentType ?ctx
                  then [(''Content-Type'', ''text/plain'')] else [])"
    by blast+
  from matched_condition_replaces_defaults [OF i(2) m2 f(2) nd(2) p2 t] v(5,6)
  have b: "respStatusCode (handleRoute foldExcerpt TimerFired ?fresh emptyOverrideRoute) =
           (if CondResponseStatus (Conditions emptyOverrideRoute ! 0) = 0 then 200
            else CondResponseStatus (Conditions emptyOverrideRoute ! 0))"
    "respBody (handleRoute foldExcerpt TimerFired ?fresh emptyOverrideRoute) = respBody ?fresh"
    "respHeader (handleRoute foldExcerpt TimerFired ?fresh emptyOverrideRoute) =
                 respHeader ?fresh
                 @ (if lastSet ''Content-Type'' (respHeader ?fresh) = [] \<and> respNoDefaultContentType ?fresh
                    then [(''Content-Type'', ''text/plain'')] else [])"
    by blast+
  show ?thesis
    unfolding a b l by (simp add: v)
qed

text \<open>
  With the dump flag, the matched condition with the empty override gets the dump as its
  body and \<^verbatim>\<open>application/json\<close> as a header; and a request that matches the first
  condition of the secured route but carries \<^verbatim>\<open>?delay=invalid\<close> gets the 400.
\<close>

theorem matched_condition_dump_counterexample:
  "MatchesHeaders foldExcerpt (Conditions (emptyOverrideRoute\<lparr>ResponseDump := True\<rparr>) ! 0)
      (extractHeaders (newRequestCtx [] []))
   \<and> CondResponseBody (Conditions (emptyOverrideRoute\<lparr>ResponseDump := True\<rparr>) ! 0) = []
   \<and> respBody (handleRoute foldExcerpt TimerFired (newRequestCtx [] []) (emptyOverrideRoute\<lparr>ResponseDump := True\<rparr>)) =
       ''{'' @ [CHR 0x0A] @ ''  \"headers\": {},'' @ [CHR 0x0A]
       @ ''  \"query_parameters\": {}'' @ [CHR 0x0A] @ ''}''
   \<and> respHeader (handleRoute foldExcerpt TimerFired (newRequestCtx [] []) (emptyOverrideRoute\<lparr>ResponseDump := True\<rparr>)) =
       [(''Content-Type'', ''application/json'')]
   \<and> MatchesHeaders foldExcerpt (Conditions secureRoute ! 0)
        (extractHeaders (newRequestCtx [(''Authorization'', ''Bearer valid-token'')] [(''delay'', ''invalid'')]))
   \<and> respStatusCode (handleRoute foldExcerpt TimerFired
        (newRequestCtx [(''Authorization'', ''Bearer valid-token'')] [(''delay'', ''invalid'')]) secureRoute) = 400
   \<and> respBody (handleRoute foldExcerpt TimerFired
        (newRequestCtx [(''Authorization'', ''Bearer valid-token'')] [(''delay'', ''invalid'')]) secureRoute) =
       ''Invalid delay parameter: time: invalid duration \"invalid\"''"
  by code_simp

end
